theory Spec2Isabelle
  imports Complex_Main
begin

section \<open>JavaScript values, numbers and strings\<close>

text \<open>
  The product-generation pipeline is TypeScript.  Its values are modelled as follows.
  \<^item> A JavaScript string is a \<^typ>\<open>string\<close>; the model covers the code units below 256.
  \<^item> A JavaScript number is a \<open>jsnumber\<close>: a finite value, \<open>NaN\<close> or one of the two
    infinities.  Finite values are rationals.  The comparisons the pipeline makes (a
    count with \<open>1\<close>, \<open>100\<close> and a loop index, a quotient of two small integers with a
    literal) have the same truth value on rationals and on doubles.  The sum of the
    counts is exact where the counts are integers; on fractional counts the source
    rounds each partial sum to a double and the model does not.
  \<^item> A JavaScript value that the code inspects at run time is a \<open>jsvalue\<close>; \<open>JSObject\<close>
    is an object or array of plain data.
  \<^item> A thrown value is an \<open>exn\<close>: an \<open>Error\<close> object with its message, or any other
    thrown value.
  \<^item> A call returns, throws or never returns: an \<open>outcome\<close>.
\<close>

datatype jsnumber = Finite rat | NaN | PosInfinity | NegInfinity

datatype jsvalue =
    JSUndefined | JSNull | JSBoolean bool | JSNumber jsnumber | JSString string | JSBigInt int
  | JSObject

datatype exn = Error string | Thrown

datatype 'a outcome = Returns 'a | Throws exn | Diverges

text \<open>\<open>a < b\<close> on numbers: false whenever an operand is \<open>NaN\<close>.\<close>

fun js_lt :: "jsnumber \<Rightarrow> jsnumber \<Rightarrow> bool" where
  "js_lt NaN _ = False"
| "js_lt _ NaN = False"
| "js_lt (Finite a) (Finite b) = (a < b)"
| "js_lt (Finite a) PosInfinity = True"
| "js_lt (Finite a) NegInfinity = False"
| "js_lt PosInfinity _ = False"
| "js_lt NegInfinity NegInfinity = False"
| "js_lt NegInfinity _ = True"

definition js_gt :: "jsnumber \<Rightarrow> jsnumber \<Rightarrow> bool" where
  "js_gt a b = js_lt b a"

text \<open>\<open>a + b\<close> on numbers.\<close>

fun js_add :: "jsnumber \<Rightarrow> jsnumber \<Rightarrow> jsnumber" where
  "js_add NaN _ = NaN"
| "js_add _ NaN = NaN"
| "js_add (Finite a) (Finite b) = Finite (a + b)"
| "js_add (Finite a) x = x"
| "js_add x (Finite b) = x"
| "js_add PosInfinity PosInfinity = PosInfinity"
| "js_add NegInfinity NegInfinity = NegInfinity"
| "js_add PosInfinity NegInfinity = NaN"
| "js_add NegInfinity PosInfinity = NaN"

text \<open>\<open>String(n)\<close> for a non-negative integer: its decimal digits.\<close>

definition digit_char :: "nat \<Rightarrow> char" where
  "digit_char d = ''0123456789'' ! (d mod 10)"

fun string_of_nat :: "nat \<Rightarrow> string" where
  "string_of_nat n =
     (if n < 10 then [digit_char n] else string_of_nat (n div 10) @ [digit_char (n mod 10)])"

declare string_of_nat.simps [simp del]

text \<open>\<open>s.startsWith(p)\<close>, \<open>s.includes(p)\<close> and \<open>s.indexOf(p)\<close> (\<open>None\<close> for \<open>-1\<close>).\<close>

definition startsWith :: "string \<Rightarrow> string \<Rightarrow> bool" where
  "startsWith s p = (take (length p) s = p)"

fun indexOf :: "string \<Rightarrow> string \<Rightarrow> nat option" where
  "indexOf [] p = (if p = [] then Some 0 else None)"
| "indexOf (c # cs) p =
     (if startsWith (c # cs) p then Some 0 else map_option Suc (indexOf cs p))"

definition str_includes :: "string \<Rightarrow> string \<Rightarrow> bool" where
  "str_includes s p = (indexOf s p \<noteq> None)"

text \<open>
  \<open>s.trim()\<close> removes white space and line terminators at both ends.  Among the code
  units below 256 these are tab, line feed, vertical tab, form feed, carriage return,
  space and the no-break space.
\<close>

definition is_white_space :: "char \<Rightarrow> bool" where
  "is_white_space c = (of_char c \<in> {9, 10, 11, 12, 13, 32, 160 :: nat})"

definition trim :: "string \<Rightarrow> string" where
  "trim s = rev (dropWhile is_white_space (rev (dropWhile is_white_space s)))"

text \<open>The regular expression dot matches every code unit but a line terminator.\<close>

definition line_terminator :: "char \<Rightarrow> bool" where
  "line_terminator c = (of_char c \<in> {10, 13 :: nat})"

section \<open>Base64 (the platform's \<open>Buffer\<close>)\<close>

text \<open>
  \<open>Buffer.from(s, 'base64')\<close> is the runtime's decoder, not code of the repository.  It
  is lenient: a character outside the alphabet is skipped, the URL-safe characters
  \<open>-\<close> and \<open>_\<close> are accepted, and decoding stops at the first \<open>=\<close>.  Bytes are numbers
  from 0 to 255.
\<close>

definition unbase64 :: "char \<Rightarrow> nat option" where
  "unbase64 c =
     (let n = (of_char c :: nat) in
      if 65 \<le> n \<and> n \<le> 90 then Some (n - 65)
      else if 97 \<le> n \<and> n \<le> 122 then Some (n - 71)
      else if 48 \<le> n \<and> n \<le> 57 then Some (n + 4)
      else if n = 43 \<or> n = 45 then Some 62
      else if n = 47 \<or> n = 95 then Some 63
      else None)"

fun sextets :: "string \<Rightarrow> nat list" where
  "sextets [] = []"
| "sextets (c # cs) =
     (if c = CHR ''='' then []
      else case unbase64 c of None \<Rightarrow> sextets cs | Some v \<Rightarrow> v # sextets cs)"

fun bytes_of_sextets :: "nat list \<Rightarrow> nat list" where
  "bytes_of_sextets (a # b # c # d # rest) =
     [a * 4 + b div 16, (b mod 16) * 16 + c div 4, (c mod 4) * 64 + d] @ bytes_of_sextets rest"
| "bytes_of_sextets [a, b, c] = [a * 4 + b div 16, (b mod 16) * 16 + c div 4]"
| "bytes_of_sextets [a, b] = [a * 4 + b div 16]"
| "bytes_of_sextets _ = []"

definition base64_decode :: "string \<Rightarrow> nat list" where
  "base64_decode s = bytes_of_sextets (sextets s)"

text \<open>\<open>buffer.toString('base64')\<close>: the standard alphabet, padded with \<open>=\<close>.\<close>

definition base64_char :: "nat \<Rightarrow> char" where
  "base64_char v =
     ''ABCDEFGHIJKLMNOPQRSTUVWXYZabcdefghijklmnopqrstuvwxyz0123456789+/'' ! (v mod 64)"

fun base64_encode :: "nat list \<Rightarrow> string" where
  "base64_encode (a # b # c # rest) =
     [base64_char (a div 4), base64_char ((a mod 4) * 16 + b div 16),
      base64_char ((b mod 16) * 4 + c div 64), base64_char (c mod 64)] @ base64_encode rest"
| "base64_encode [a, b] =
     [base64_char (a div 4), base64_char ((a mod 4) * 16 + b div 16),
      base64_char ((b mod 16) * 4), CHR ''='']"
| "base64_encode [a] = [base64_char (a div 4), base64_char ((a mod 4) * 16), CHR ''='', CHR ''='']"
| "base64_encode [] = []"

text \<open>\<open>Buffer.from(s)\<close> on a string: its UTF-8 bytes.\<close>

definition utf8_bytes :: "string \<Rightarrow> nat list" where
  "utf8_bytes s =
     concat (map (\<lambda>c. let n = (of_char c :: nat) in
                        if n < 128 then [n] else [192 + n div 64, 128 + n mod 64]) s)"

section \<open>The placeholder detector\<close>

text \<open>
  \<open>imageDataUri.match(/base64,(.+)/)\<close>: the leftmost \<open>base64,\<close> that is followed by a
  character other than a line terminator; the group is the rest of that line.
\<close>

fun base64Match :: "string \<Rightarrow> string option" where
  "base64Match [] = None"
| "base64Match (c # cs) =
     (if startsWith (c # cs) ''base64,'' \<and>
         (case drop 7 (c # cs) of [] \<Rightarrow> False | d # _ \<Rightarrow> \<not> line_terminator d)
      then Some (takeWhile (\<lambda>d. \<not> line_terminator d) (drop 7 (c # cs)))
      else base64Match cs)"

text \<open>
  \<open>isPlaceholderImage\<close> of \<^verbatim>\<open>generate-products.ts\<close>.  Nothing in its \<open>try\<close> block throws
  on a string, so the \<open>catch\<close> branch is never taken.  The mean and the share are
  quotients: on a buffer of at least 1024 bytes the sample has 100 entries, the sum is an
  integer below 25600, and the comparisons \<open>|s - avg| < 10\<close> and
  \<open>uniformCount / 100 > 0.8\<close> have the same truth value on doubles and on rationals.
\<close>

definition isPlaceholderImage :: "string \<Rightarrow> bool" where
  "isPlaceholderImage imageDataUri =
     (if str_includes imageDataUri ''data:image/svg+xml'' then True
      else case base64Match imageDataUri of
        None \<Rightarrow> False
      | Some base64Data \<Rightarrow>
          (let buffer = base64_decode base64Data in
           if length buffer < 1024 then True
           else
             (let sampleSize = min 100 (length buffer);
                  samples = take sampleSize buffer;
                  avg = (of_nat (sum_list samples) :: rat) / of_nat (length samples);
                  uniformCount = length (filter (\<lambda>s. \<bar>of_nat s - avg\<bar> < 10) samples)
              in (of_nat uniformCount :: rat) / of_nat (length samples) > 8 / 10)))"

section \<open>Step 1: organizing the input\<close>

text \<open>
  The caller's \<open>categories\<close> argument is \<open>None\<close> when it is not an array.  An element
  of the array is \<open>None\<close> when it is not an object (the filter rejects it through
  \<open>!cat\<close> or \<open>!cat.category\<close>), and otherwise the two properties the filter reads.
\<close>

record RawCategoryInput =
  raw_category :: jsvalue
  raw_count :: jsvalue

record CategoryInput =
  category :: string
  count :: jsnumber

record OrganizedInput =
  categories :: "CategoryInput list"
  totalProducts :: jsnumber

text \<open>
  The callback of \<open>categories.filter\<close>.  \<open>!cat.category\<close> holds for \<open>undefined\<close>,
  \<open>null\<close>, \<open>false\<close>, \<open>0\<close>, \<open>NaN\<close> and the empty string; every other value that is not
  a string fails \<open>typeof cat.category !== 'string'\<close>.
\<close>

definition validCategory :: "RawCategoryInput option \<Rightarrow> bool" where
  "validCategory cat =
     (case cat of
        None \<Rightarrow> False
      | Some c \<Rightarrow>
          (case raw_category c of
             JSString name \<Rightarrow>
               if name = [] then False
               else (case raw_count c of
                       JSNumber n \<Rightarrow>
                         if js_lt n (Finite 1) \<or> js_gt n (Finite 100) then False else True
                     | _ \<Rightarrow> False)
           | _ \<Rightarrow> False))"

text \<open>The callback of \<open>validCategories.map\<close>, on an element that passed the filter.\<close>

definition organizedCategory :: "RawCategoryInput option \<Rightarrow> CategoryInput" where
  "organizedCategory cat =
     (case cat of
        Some c \<Rightarrow>
          \<lparr>category = (case raw_category c of JSString name \<Rightarrow> trim name | _ \<Rightarrow> []),
           count = (case raw_count c of JSNumber n \<Rightarrow> n | _ \<Rightarrow> NaN)\<rparr>
      | None \<Rightarrow> \<lparr>category = [], count = NaN\<rparr>)"

text \<open>
  The body of the first \<open>try\<close> block of \<open>productGeneratorWorkflow\<close> (the inlined
  \<open>organizeInput\<close>): \<open>Inl\<close> is the error it throws.
\<close>

definition organizeInput :: "RawCategoryInput option list option \<Rightarrow> exn + OrganizedInput" where
  "organizeInput categories_arg =
     (case categories_arg of
        None \<Rightarrow> Inl (Error ''Categories array is required and cannot be empty'')
      | Some cats \<Rightarrow>
          if length cats = 0 then Inl (Error ''Categories array is required and cannot be empty'')
          else if length cats > 10 then Inl (Error ''Maximum 10 categories allowed'')
          else
            (let validCategories = filter validCategory cats in
             if length validCategories = 0
             then Inl (Error ''No valid categories found. Each category needs a name and count between 1-100'')
             else
               Inr \<lparr>categories = map organizedCategory validCategories,
                    totalProducts =
                      foldl (\<lambda>sum cat. js_add sum (count (organizedCategory cat))) (Finite 0)
                        validCategories\<rparr>))"

section \<open>Step 2: generating the products\<close>

record Variant =
  variant_title :: string
  variant_price :: string

text \<open>\<open>Omit<GeneratedProduct, 'image' | 'category'>\<close>, and \<open>GeneratedProduct\<close> as its extension.\<close>

record ProductData =
  title :: string
  description :: string
  price :: string
  variants :: "Variant list"
  features :: "string list"

record GeneratedProduct = ProductData +
  product_image :: string
  product_category :: string

record GeneratedFile =
  mediaType :: "string option"
  base64 :: string
  uint8Array :: "nat list option"

record GenerateTextResult =
  result_text :: string
  files :: "GeneratedFile list"

record PayloadVariant =
  option1 :: string
  payload_price :: string
  position :: nat

record ProductPayload =
  payload_title :: string
  body_html :: string
  vendor :: string
  product_type :: string
  payload_variants :: "PayloadVariant list"
  options :: "string list option"

datatype http_body = ProductBody ProductPayload | ImageBody string string

record http_request =
  url :: string
  access_token :: string
  body :: http_body

text \<open>
  What \<open>createResponse.json()\<close> gives: it throws, or the result has no \<open>product\<close>, or it
  has one with an \<open>id\<close> (\<open>None\<close> when the id is missing or falsy, else its
  \<open>toString()\<close>) and a title.
\<close>

datatype response_json = JsonThrows | NoProduct | Product "string option" string

record http_response =
  ok :: bool
  status :: nat
  json :: response_json

datatype fetch_outcome = FetchThrows | FetchResponds http_response

text \<open>
  The environment holds everything the pipeline reads but does not own: the process
  environment variables, and the behaviour of the generation service, of \<open>JSON.parse\<close>,
  of the commerce API and of the clock.  The \<open>n\<close>-th call of \<open>generateText\<close> gets
  \<open>generateText env n\<close>, whatever the prompt (\<open>None\<close>: the call throws); the prompt text
  is therefore not modelled.  \<open>JSON_parse\<close> gives \<open>None\<close> where \<open>JSON.parse\<close> throws.
  The world records the calls made so far.
\<close>

record env =
  SHOPIFY_STORE_DOMAIN :: "string option"
  SHOPIFY_ACCESS_TOKEN :: "string option"
  AI_GATEWAY_API_KEY :: "string option"
  VERCEL_AI_GATEWAY_KEY :: "string option"
  generateText :: "nat \<Rightarrow> GenerateTextResult option"
  JSON_parse :: "string \<Rightarrow> ProductData option"
  fetch :: "nat \<Rightarrow> http_request \<Rightarrow> fetch_outcome"
  Date_now :: "nat \<Rightarrow> nat"

record world =
  ai_calls :: nat
  http_log :: "http_request list"

text \<open>A variable of the process environment is falsy when unset or empty.\<close>

definition truthy :: "string option \<Rightarrow> bool" where
  "truthy v = (case v of None \<Rightarrow> False | Some s \<Rightarrow> s \<noteq> [])"

definition apiKey :: "env \<Rightarrow> string option" where
  "apiKey e = (if truthy (AI_GATEWAY_API_KEY e) then AI_GATEWAY_API_KEY e else VERCEL_AI_GATEWAY_KEY e)"

definition maxRetries :: nat where
  "maxRetries = 3"

definition newline :: char where
  "newline = CHR 0x0A"

text \<open>\<open>result.text.match(/\{[\s\S]*\}/)\<close>: from the first \<open>{\<close> to the last \<open>}\<close> after it.\<close>

definition jsonMatch :: "string \<Rightarrow> string option" where
  "jsonMatch t =
     (let rest = dropWhile (\<lambda>c. c \<noteq> CHR ''{'') t in
      if CHR ''}'' \<in> set rest then Some (rev (dropWhile (\<lambda>c. c \<noteq> CHR ''}'') (rev rest)))
      else None)"

definition defaultVariants :: "Variant list" where
  "defaultVariants =
     [\<lparr>variant_title = ''Standard'', variant_price = ''99.99''\<rparr>,
      \<lparr>variant_title = ''Premium'', variant_price = ''149.99''\<rparr>]"

definition defaultFeatures :: "string list" where
  "defaultFeatures = [''High quality'', ''Durable'', ''Modern design'']"

text \<open>The inner \<open>try\<close>/\<open>catch\<close> that reads the product data out of the response text.\<close>

definition productData :: "env \<Rightarrow> string \<Rightarrow> nat \<Rightarrow> string \<Rightarrow> ProductData" where
  "productData e cat i t =
     (case jsonMatch t of
        Some m \<Rightarrow>
          (case JSON_parse e m of
             Some parsed \<Rightarrow> parsed
           | None \<Rightarrow>
               \<lparr>title = ''Premium '' @ cat @ '' '' @ string_of_nat (i + 1),
                description =
                  (if t \<noteq> [] then t else ''A high-quality '' @ cat @ '' with excellent features.''),
                price = ''99.99'', variants = defaultVariants, features = defaultFeatures\<rparr>)
      | None \<Rightarrow>
          \<lparr>title =
             (let first_line = takeWhile (\<lambda>c. c \<noteq> newline) t in
              if first_line \<noteq> [] then first_line
              else ''Premium '' @ cat @ '' '' @ string_of_nat (i + 1)),
           description = t, price = ''99.99'', variants = defaultVariants,
           features = defaultFeatures\<rparr>)"

text \<open>The vector placeholder: a labelled rectangle as a self-contained data URI.\<close>

definition svgPlaceholder :: "string \<Rightarrow> string" where
  \<open>svgPlaceholder cat =
     ''data:image/svg+xml;base64,'' @
     base64_encode (utf8_bytes
       (''<svg width="400" height="400" xmlns="http://www.w3.org/2000/svg"><rect width="400" height="400" fill="#f0f0f0"/><text x="50%" y="50%" font-family="Arial" font-size="20" fill="#666" text-anchor="middle" dominant-baseline="middle">''
        @ cat @ ''</text></svg>''))\<close>

text \<open>
  The image of a response: the first file whose media type starts with \<open>image/\<close>, as a
  data URI, and the vector placeholder when that gives the empty string.
\<close>

definition isImageFile :: "GeneratedFile \<Rightarrow> bool" where
  "isImageFile f = (case mediaType f of None \<Rightarrow> False | Some m \<Rightarrow> startsWith m ''image/'')"

definition imageDataUri :: "string \<Rightarrow> GeneratedFile list \<Rightarrow> string" where
  "imageDataUri cat fs =
     (let imageFiles = filter isImageFile fs;
          uri =
            (case imageFiles of
               [] \<Rightarrow> []
             | imageFile # _ \<Rightarrow>
                 (let m = (case mediaType imageFile of Some m \<Rightarrow> m | None \<Rightarrow> ''undefined'') in
                  if base64 imageFile \<noteq> [] then ''data:'' @ m @ '';base64,'' @ base64 imageFile
                  else case uint8Array imageFile of
                         Some bytes \<Rightarrow> ''data:'' @ m @ '';base64,'' @ base64_encode bytes
                       | None \<Rightarrow> []))
      in if uri = [] then svgPlaceholder cat else uri)"

text \<open>
  The body of the outer \<open>try\<close> block of one attempt, up to the placeholder check:
  \<open>None\<close> when it throws (no API key, or \<open>generateText\<close> throws), else the image and
  the product data.
\<close>

definition generateOnce ::
  "env \<Rightarrow> string \<Rightarrow> nat \<Rightarrow> world \<Rightarrow> (string \<times> ProductData) option \<times> world" where
  "generateOnce e cat i w =
     (if \<not> truthy (apiKey e) then (None, w)
      else
        (let w' = w\<lparr>ai_calls := Suc (ai_calls w)\<rparr> in
         case generateText e (ai_calls w) of
           None \<Rightarrow> (None, w')
         | Some result \<Rightarrow>
             (Some (imageDataUri cat (files result), productData e cat i (result_text result)), w')))"

definition fallbackProduct :: "string \<Rightarrow> nat \<Rightarrow> GeneratedProduct" where
  "fallbackProduct cat i =
     \<lparr>title = cat @ '' '' @ string_of_nat (i + 1),
      description = ''A high-quality '' @ cat @ '' with excellent features and modern design.'',
      price = ''99.99'',
      variants = [\<lparr>variant_title = ''Standard'', variant_price = ''99.99''\<rparr>],
      features = defaultFeatures,
      product_image = svgPlaceholder cat,
      product_category = cat\<rparr>"

text \<open>
  The \<open>while (!productGenerated && attempts < maxRetries)\<close> loop of one product.  The
  result is what the loop pushes onto \<open>allProducts\<close>.  A recursive call is a \<open>continue\<close>
  (with \<open>productGenerated\<close> still false); a returned singleton is a push followed by
  \<open>productGenerated = true\<close>.
\<close>

function retryLoop ::
  "env \<Rightarrow> string \<Rightarrow> nat \<Rightarrow> nat \<Rightarrow> world \<Rightarrow> GeneratedProduct list \<times> world" where
  "retryLoop e cat i attempts w =
     (if attempts < maxRetries then
        (let attempts' = attempts + 1 in
         case generateOnce e cat i w of
           (Some (uri, pd), w') \<Rightarrow>
             if isPlaceholderImage uri \<and> attempts' < maxRetries
             then retryLoop e cat i attempts' w'
             else ([ProductData.extend pd (GeneratedProduct.fields uri cat)], w')
         | (None, w') \<Rightarrow>
             if attempts' < maxRetries then retryLoop e cat i attempts' w'
             else ([fallbackProduct cat i], w'))
      else ([], w))"
  by pat_completeness auto
termination
  by (relation "measure (\<lambda>(e, cat, i, attempts, w). maxRetries - attempts)") auto

declare retryLoop.simps [simp del]

text \<open>
  The \<open>for (let i = 0; i < count; i++)\<close> loop of one category.  With \<open>count\<close> the
  positive infinity the loop never ends: \<open>None\<close>.
\<close>

function productLoop ::
  "env \<Rightarrow> string \<Rightarrow> jsnumber \<Rightarrow> nat \<Rightarrow> world \<Rightarrow> (GeneratedProduct list \<times> world) option" where
  "productLoop e cat cnt i w =
     (if cnt = PosInfinity then None
      else if js_lt (Finite (of_nat i)) cnt then
        (case retryLoop e cat i 0 w of
           (pushed, w') \<Rightarrow>
             map_option (\<lambda>(rest, w''). (pushed @ rest, w'')) (productLoop e cat cnt (Suc i) w'))
      else Some ([], w))"
  by pat_completeness auto
termination
proof (relation "measure (\<lambda>(e, cat, cnt, i, w). case cnt of Finite q \<Rightarrow> nat \<lceil>q\<rceil> - i | _ \<Rightarrow> 0)")
  show "wf (measure (\<lambda>(e, cat, cnt, i, w). case cnt of Finite q \<Rightarrow> nat \<lceil>q\<rceil> - i | _ \<Rightarrow> 0))"
    by simp
next
  fix e :: env and cat :: string and cnt :: jsnumber and i :: nat and w x :: world
    and pushed :: "GeneratedProduct list" and w' :: world
  assume inf: "cnt \<noteq> PosInfinity" and lt: "js_lt (Finite (of_nat i)) cnt"
  from inf lt obtain q where q: "cnt = Finite q" and iq: "of_nat i < q"
    by (cases cnt) auto
  have "of_nat i < (of_int \<lceil>q\<rceil> :: rat)"
    using iq le_of_int_ceiling [of q] by linarith
  then have "int i < \<lceil>q\<rceil>"
    by (metis of_int_less_iff of_int_of_nat_eq)
  then have "i < nat \<lceil>q\<rceil>"
    by linarith
  then show "((e, cat, cnt, Suc i, w'), (e, cat, cnt, i, w))
      \<in> measure (\<lambda>(e, cat, cnt, i, w). case cnt of Finite q \<Rightarrow> nat \<lceil>q\<rceil> - i | _ \<Rightarrow> 0)"
    using q by simp
qed

declare productLoop.simps [simp del]

text \<open>The \<open>for (const categoryData of organizedInput.categories)\<close> loop.\<close>

fun categoryLoop ::
  "env \<Rightarrow> CategoryInput list \<Rightarrow> world \<Rightarrow> (GeneratedProduct list \<times> world) option" where
  "categoryLoop e [] w = Some ([], w)"
| "categoryLoop e (categoryData # rest) w =
     (case productLoop e (category categoryData) (count categoryData) 0 w of
        None \<Rightarrow> None
      | Some (products, w') \<Rightarrow>
          map_option (\<lambda>(more, w''). (products @ more, w'')) (categoryLoop e rest w'))"

text \<open>
  \<open>generateProducts\<close>.  The sample image changes the prompt only.  Every exception of
  the loop body is caught inside the loop, and the function throws nowhere else.
\<close>

definition generateProducts ::
  "env \<Rightarrow> OrganizedInput \<Rightarrow> string option \<Rightarrow> world \<Rightarrow> GeneratedProduct list outcome \<times> world" where
  "generateProducts e organizedInput sampleImage w =
     (case categoryLoop e (categories organizedInput) w of
        None \<Rightarrow> (Diverges, w)
      | Some (allProducts, w') \<Rightarrow> (Returns allProducts, w'))"

section \<open>Step 3: creating the commerce records\<close>

record ShopifyProduct =
  product_id :: string
  product_title :: string
  image_data :: string

text \<open>\<open>shopifyDomain.replace(/^https?:\/\//, '').replace(/\/$/, '')\<close>.\<close>

definition normalizeDomain :: "string \<Rightarrow> string" where
  "normalizeDomain d =
     (let d1 = (if startsWith d ''https://'' then drop 8 d
                else if startsWith d ''http://'' then drop 7 d else d)
      in if d1 \<noteq> [] \<and> last d1 = CHR ''/'' then butlast d1 else d1)"

text \<open>
  The callback of \<open>product.variants.map\<close>.  \<open>seenValues\<close> is a new empty set in every
  call of the callback, as in the source.
\<close>

definition payloadVariant :: "nat \<times> Variant \<Rightarrow> PayloadVariant" where
  "payloadVariant iv =
     (case iv of (index, variant) \<Rightarrow>
        (let optionValue =
               (if variant_title variant \<noteq> [] then variant_title variant
                else ''Option '' @ string_of_nat (index + 1));
             seenValues = ([] :: string list);
             uniqueOptionValue =
               (if optionValue \<in> set seenValues
                then optionValue @ '' '' @ string_of_nat (index + 1)
                else optionValue)
         in \<lparr>option1 = uniqueOptionValue, payload_price = variant_price variant,
             position = index + 1\<rparr>))"

definition payloadVariants :: "GeneratedProduct \<Rightarrow> PayloadVariant list" where
  "payloadVariants product =
     (if length (variants product) > 0
      then map payloadVariant (enumerate 0 (variants product))
      else [\<lparr>option1 = ''Default'',
             payload_price = (if price product \<noteq> [] then price product else ''0.00''),
             position = 1\<rparr>])"

definition productPayload :: "GeneratedProduct \<Rightarrow> ProductPayload" where
  "productPayload product =
     \<lparr>payload_title = title product,
      body_html =
        ''<p>'' @ concat (map (\<lambda>c. if c = newline then ''</p><p>'' else [c]) (description product))
        @ ''</p>'',
      vendor = ''AI Generated'',
      product_type = product_category product,
      payload_variants = payloadVariants product,
      options = (if length (variants product) > 0 then Some [''Variant''] else None)\<rparr>"

text \<open>
  One turn of the \<open>for\<close> loop of \<open>createShopifyProducts\<close>: the record it pushes, or
  \<open>None\<close> when the \<open>try\<close> block throws (\<open>fetch\<close> throws, the response is not ok, its
  body does not parse, or it holds no id); the empty \<open>catch\<close> discards the error, whose
  message is therefore not modelled.
\<close>

definition createOne ::
  "env \<Rightarrow> string \<Rightarrow> string \<Rightarrow> GeneratedProduct \<Rightarrow> world \<Rightarrow> ShopifyProduct option \<times> world" where
  "createOne e normalizedDomain accessToken product w =
     (let request =
            \<lparr>url = ''https://'' @ normalizedDomain @ ''/admin/api/2025-07/products.json'',
             access_token = trim accessToken,
             body = ProductBody (productPayload product)\<rparr>;
          w' = w\<lparr>http_log := http_log w @ [request]\<rparr>
      in case fetch e (length (http_log w)) request of
           FetchThrows \<Rightarrow> (None, w')
         | FetchResponds createResponse \<Rightarrow>
             if \<not> ok createResponse then (None, w')
             else (case json createResponse of
                     Product (Some productId) t \<Rightarrow>
                       (Some \<lparr>product_id = productId, product_title = t,
                              image_data = product_image product\<rparr>, w')
                   | _ \<Rightarrow> (None, w')))"

fun createLoop ::
  "env \<Rightarrow> string \<Rightarrow> string \<Rightarrow> GeneratedProduct list \<Rightarrow> world \<Rightarrow> ShopifyProduct list \<times> world" where
  "createLoop e d t [] w = ([], w)"
| "createLoop e d t (product # rest) w =
     (case createOne e d t product w of
        (pushed, w') \<Rightarrow>
          (case createLoop e d t rest w' of
             (createdProducts, w'') \<Rightarrow>
               ((case pushed of None \<Rightarrow> [] | Some p \<Rightarrow> [p]) @ createdProducts, w'')))"

definition yes_no :: "string option \<Rightarrow> string" where
  "yes_no v = (if truthy v then ''yes'' else ''no'')"

definition createShopifyProducts ::
  "env \<Rightarrow> GeneratedProduct list \<Rightarrow> world \<Rightarrow> ShopifyProduct list outcome \<times> world" where
  "createShopifyProducts e products w =
     (case (SHOPIFY_STORE_DOMAIN e, SHOPIFY_ACCESS_TOKEN e) of
        (Some shopifyDomain, Some accessToken) \<Rightarrow>
          if shopifyDomain = [] \<or> accessToken = [] then
            (Throws (Error
               (''Shopify credentials not configured. Please set SHOPIFY_STORE_DOMAIN and SHOPIFY_ACCESS_TOKEN environment variables.''
                @ [newline] @ ''      Found SHOPIFY_STORE_DOMAIN: '' @ yes_no (SHOPIFY_STORE_DOMAIN e)
                @ [newline] @ ''      Found SHOPIFY_ACCESS_TOKEN: '' @ yes_no (SHOPIFY_ACCESS_TOKEN e))), w)
          else
            (case createLoop e (normalizeDomain shopifyDomain) accessToken products w of
               (createdProducts, w') \<Rightarrow> (Returns createdProducts, w'))
      | _ \<Rightarrow>
          (Throws (Error
             (''Shopify credentials not configured. Please set SHOPIFY_STORE_DOMAIN and SHOPIFY_ACCESS_TOKEN environment variables.''
              @ [newline] @ ''      Found SHOPIFY_STORE_DOMAIN: '' @ yes_no (SHOPIFY_STORE_DOMAIN e)
              @ [newline] @ ''      Found SHOPIFY_ACCESS_TOKEN: '' @ yes_no (SHOPIFY_ACCESS_TOKEN e))), w))"

section \<open>Step 4: uploading the images\<close>

text \<open>
  \<open>imageData.replace(/^data:image\/[^;]+;base64,/, '')\<close> for a string that starts with
  \<open>data:image/\<close>, and else the part after the first \<open>base64,\<close> when there is one.
\<close>

definition stripDataUriPrefix :: "string \<Rightarrow> string" where
  "stripDataUriPrefix img =
     (if startsWith img ''data:image/'' then
        (let mime = takeWhile (\<lambda>c. c \<noteq> CHR '';'') (drop 11 img);
             after = dropWhile (\<lambda>c. c \<noteq> CHR '';'') (drop 11 img)
         in if mime \<noteq> [] \<and> startsWith after '';base64,'' then drop 8 after else img)
      else case indexOf img ''base64,'' of
             Some k \<Rightarrow> drop (k + 7) img
           | None \<Rightarrow> img)"

text \<open>
  \<open>product.image.match(/data:image\/([^;]+)/)\<close>: the group of the leftmost
  \<open>data:image/\<close> that is followed by a character other than \<open>;\<close>.
\<close>

fun mimeTypeMatch :: "string \<Rightarrow> string option" where
  "mimeTypeMatch [] = None"
| "mimeTypeMatch (c # cs) =
     (if startsWith (c # cs) ''data:image/'' \<and>
         (case drop 11 (c # cs) of [] \<Rightarrow> False | d # _ \<Rightarrow> d \<noteq> CHR '';'')
      then Some (takeWhile (\<lambda>d. d \<noteq> CHR '';'') (drop 11 (c # cs)))
      else mimeTypeMatch cs)"

definition imageExtension :: "string \<Rightarrow> string" where
  "imageExtension img =
     (case mimeTypeMatch img of
        None \<Rightarrow> ''png''
      | Some mimeType \<Rightarrow>
          if str_includes mimeType ''jpeg'' \<or> str_includes mimeType ''jpg'' then ''jpg''
          else if str_includes mimeType ''png'' then ''png''
          else if str_includes mimeType ''webp'' then ''webp''
          else if str_includes mimeType ''svg'' then ''png''
          else ''png'')"

text \<open>
  One turn of the \<open>for\<close> loop of \<open>uploadProductImages\<close>.  Every path through the
  \<open>try\<close> block and the \<open>catch\<close> ends the turn and goes on to the next product; the
  turn leaves nothing but the request it made.
\<close>

definition uploadOne :: "env \<Rightarrow> string \<Rightarrow> string \<Rightarrow> ShopifyProduct \<Rightarrow> world \<Rightarrow> world" where
  "uploadOne e normalizedDomain accessToken product w =
     (if image_data product = [] then w
      else
        (let imageData = stripDataUriPrefix (image_data product) in
         if imageData = [] then w
         else
           (let request =
                  \<lparr>url = ''https://'' @ normalizedDomain @ ''/admin/api/2025-07/products/''
                         @ product_id product @ ''/images.json'',
                   access_token = trim accessToken,
                   body = ImageBody imageData
                     (''product-'' @ product_id product @ ''-''
                      @ string_of_nat (Date_now e (length (http_log w))) @ ''.''
                      @ imageExtension (image_data product))\<rparr>;
                w' = w\<lparr>http_log := http_log w @ [request]\<rparr>
            in case fetch e (length (http_log w)) request of
                 FetchThrows \<Rightarrow> w'
               | FetchResponds response \<Rightarrow> (if \<not> ok response then w' else w'))))"

definition uploadProductImages ::
  "env \<Rightarrow> ShopifyProduct list \<Rightarrow> world \<Rightarrow> unit outcome \<times> world" where
  "uploadProductImages e products w =
     (case (SHOPIFY_STORE_DOMAIN e, SHOPIFY_ACCESS_TOKEN e) of
        (Some shopifyDomain, Some accessToken) \<Rightarrow>
          if shopifyDomain = [] \<or> accessToken = [] then
            (Throws (Error ''Shopify credentials not configured. Please set SHOPIFY_STORE_DOMAIN and SHOPIFY_ACCESS_TOKEN environment variables.''), w)
          else
            (Returns (), foldl (\<lambda>w product. uploadOne e (normalizeDomain shopifyDomain) accessToken product w) w products)
      | _ \<Rightarrow>
          (Throws (Error ''Shopify credentials not configured. Please set SHOPIFY_STORE_DOMAIN and SHOPIFY_ACCESS_TOKEN environment variables.''), w))"

section \<open>The workflow\<close>

record WorkflowResult =
  success :: bool
  result_totalProducts :: jsnumber
  createdProducts :: "ShopifyProduct list"
  errors :: "string list option"

text \<open>\<open>error instanceof Error ? error.message : 'Unknown error'\<close>.\<close>

definition error_message :: "exn \<Rightarrow> string" where
  "error_message error = (case error of Error m \<Rightarrow> m | Thrown \<Rightarrow> ''Unknown error'')"

text \<open>\<open>n || 0\<close> on a number: \<open>0\<close> and \<open>NaN\<close> are falsy.\<close>

definition or_zero :: "jsnumber \<Rightarrow> jsnumber" where
  "or_zero n = (if n = Finite 0 \<or> n = NaN then Finite 0 else n)"

text \<open>
  What the awaited \<open>generateProducts\<close> may hand to the workflow, which checks it:
  \<open>null\<close> or \<open>undefined\<close>, a value that is not an array (with its \<open>typeof\<close>), or an
  array of products.
\<close>

datatype generate_return =
    NullOrUndefined | NotArray string | ProductArray "GeneratedProduct list"

text \<open>
  What the awaited \<open>createShopifyProducts\<close> may hand to the workflow, which does not
  check it: \<open>undefined\<close> or \<open>null\<close>, or an array of records.  The declared type of
  the stage is the array; any other value that is not an array is not modelled.
\<close>

datatype nullish = IsUndefined | IsNull

datatype create_return = Nullish nullish | Records "ShopifyProduct list"

definition nullish_name :: "nullish \<Rightarrow> string" where
  "nullish_name n = (case n of IsUndefined \<Rightarrow> ''undefined'' | IsNull \<Rightarrow> ''null'')"

text \<open>The \<open>TypeError\<close> of reading \<open>.length\<close> of \<open>undefined\<close> or \<open>null\<close>.\<close>

definition length_of_nullish :: "nullish \<Rightarrow> exn" where
  "length_of_nullish n =
     Error (''Cannot read properties of '' @ nullish_name n @ '' (reading '' @ [CHR 0x27]
            @ ''length'' @ [CHR 0x27] @ '')'')"

text \<open>
  The body of \<open>productGeneratorWorkflow\<close> from the declaration of \<open>errors\<close> on (lines
  26 to 153: the four \<open>try\<close>/\<open>catch\<close> blocks and the final \<open>return\<close>), with the three
  stage functions it imports as parameters and the outside world as a state of any type.
  A stage returns, throws or never returns.  Each \<open>case\<close> on an outcome is one
  \<open>try\<close>/\<open>catch\<close> of the source.  When the Create stage resolves to \<open>undefined\<close> or
  \<open>null\<close>, \<open>createdProducts.length\<close> throws inside the third \<open>try\<close> (line 119) and
  again inside its \<open>catch\<close> (line 126), where nothing catches it.  The three logging
  statements before the first \<open>try\<close> are in \<open>run_workflow\<close> below; the logging inside
  the \<open>try\<close> blocks cannot throw and is left out.
\<close>

definition workflow ::
  "(OrganizedInput \<Rightarrow> string option \<Rightarrow> 'w \<Rightarrow> generate_return outcome \<times> 'w) \<Rightarrow>
   (GeneratedProduct list \<Rightarrow> 'w \<Rightarrow> create_return outcome \<times> 'w) \<Rightarrow>
   (ShopifyProduct list \<Rightarrow> 'w \<Rightarrow> unit outcome \<times> 'w) \<Rightarrow>
   RawCategoryInput option list option \<Rightarrow> string option \<Rightarrow> 'w \<Rightarrow> WorkflowResult outcome \<times> 'w" where
  "workflow generate create upload categories_arg sampleImage w =
     (let errors0 = ([] :: string list);
          createdProducts0 = ([] :: ShopifyProduct list)
      in
      case organizeInput categories_arg of
        Inl error \<Rightarrow>
          (Returns \<lparr>success = False, result_totalProducts = Finite 0, createdProducts = [],
                    errors = Some (errors0 @ [''Step 1 failed: '' @ error_message error])\<rparr>, w)
      | Inr organizedInput \<Rightarrow>
          (let step2_failed = (\<lambda>error w2.
                 (Returns \<lparr>success = False,
                           result_totalProducts = or_zero (totalProducts organizedInput),
                           createdProducts = [],
                           errors = Some (errors0 @ [''Step 2 failed: '' @ error_message error])\<rparr>, w2))
           in
           case generate organizedInput sampleImage w of
             (Diverges, w2) \<Rightarrow> (Diverges, w2)
           | (Throws error, w2) \<Rightarrow> step2_failed error w2
           | (Returns NullOrUndefined, w2) \<Rightarrow>
               step2_failed (Error ''generateProducts returned null or undefined'') w2
           | (Returns (NotArray ty), w2) \<Rightarrow>
               step2_failed
                 (Error (''generateProducts returned invalid type: '' @ ty @ '', expected array'')) w2
           | (Returns (ProductArray generatedProducts), w2) \<Rightarrow>
               (case create generatedProducts w2 of
                  (Diverges, w3) \<Rightarrow> (Diverges, w3)
                | (Throws error, w3) \<Rightarrow>
                    (Returns \<lparr>success = (length createdProducts0 > 0),
                              result_totalProducts = totalProducts organizedInput,
                              createdProducts = createdProducts0,
                              errors = Some (errors0 @ [''Step 3 failed: '' @ error_message error])\<rparr>,
                     w3)
                | (Returns (Nullish n), w3) \<Rightarrow> (Throws (length_of_nullish n), w3)
                | (Returns (Records created), w3) \<Rightarrow>
                    (case upload created w3 of
                       (Diverges, w4) \<Rightarrow> (Diverges, w4)
                     | (upload_outcome, w4) \<Rightarrow>
                         (let errors4 =
                                (case upload_outcome of
                                   Throws error \<Rightarrow> errors0 @ [''Step 4 failed: '' @ error_message error]
                                 | _ \<Rightarrow> errors0)
                          in (Returns \<lparr>success = True,
                                       result_totalProducts = totalProducts organizedInput,
                                       createdProducts = created,
                                       errors = (if length errors4 > 0 then Some errors4 else None)\<rparr>,
                              w4))))))"

text \<open>
  The value of the \<open>categories\<close> argument as the caller passes it.  An element of an
  array is an object, of which the two properties the filter reads are kept, or a value
  that is not an object.  The first step sees of it what \<open>entries_of\<close> gives.
\<close>

datatype category_element = Primitive jsvalue | Object RawCategoryInput

datatype categories_value = NotAnArray jsvalue | ArrayOf "category_element list"

definition entry_of :: "category_element \<Rightarrow> RawCategoryInput option" where
  "entry_of element = (case element of Primitive v \<Rightarrow> None | Object c \<Rightarrow> Some c)"

definition entries_of :: "categories_value \<Rightarrow> RawCategoryInput option list option" where
  "entries_of categories_arg =
     (case categories_arg of NotAnArray v \<Rightarrow> None | ArrayOf elements \<Rightarrow> Some (map entry_of elements))"

text \<open>
  \<open>JSON.stringify(categories)\<close> throws a \<open>TypeError\<close> when it meets a \<open>BigInt\<close>.  A
  value of the model holds one only where \<open>JSBigInt\<close> stands; further properties of an
  object are plain data, and cyclic values and throwing \<open>toJSON\<close> methods are not
  modelled.
\<close>

definition is_bigint :: "jsvalue \<Rightarrow> bool" where
  "is_bigint v = (case v of JSBigInt k \<Rightarrow> True | _ \<Rightarrow> False)"

definition element_has_bigint :: "category_element \<Rightarrow> bool" where
  "element_has_bigint element =
     (case element of
        Primitive v \<Rightarrow> is_bigint v
      | Object c \<Rightarrow> is_bigint (raw_category c) \<or> is_bigint (raw_count c))"

definition stringify_throws :: "categories_value \<Rightarrow> bool" where
  "stringify_throws categories_arg =
     (case categories_arg of
        NotAnArray v \<Rightarrow> is_bigint v
      | ArrayOf elements \<Rightarrow> list_ex element_has_bigint elements)"

text \<open>
  \<open>productGeneratorWorkflow\<close> from its first statement, with the stage functions as
  parameters.  The second of the three logging statements (line 23) calls
  \<open>JSON.stringify(categories)\<close> outside every \<open>try\<close> block: what it throws leaves the
  function.
\<close>

definition run_workflow ::
  "(OrganizedInput \<Rightarrow> string option \<Rightarrow> 'w \<Rightarrow> generate_return outcome \<times> 'w) \<Rightarrow>
   (GeneratedProduct list \<Rightarrow> 'w \<Rightarrow> create_return outcome \<times> 'w) \<Rightarrow>
   (ShopifyProduct list \<Rightarrow> 'w \<Rightarrow> unit outcome \<times> 'w) \<Rightarrow>
   categories_value \<Rightarrow> string option \<Rightarrow> 'w \<Rightarrow> WorkflowResult outcome \<times> 'w" where
  "run_workflow generate create upload categories_arg sampleImage w =
     (if stringify_throws categories_arg
      then (Throws (Error ''Do not know how to serialize a BigInt''), w)
      else workflow generate create upload (entries_of categories_arg) sampleImage w)"

text \<open>The workflow as the repository wires it: the three stages of its own modules.\<close>

definition productGeneratorWorkflow ::
  "env \<Rightarrow> categories_value \<Rightarrow> string option \<Rightarrow> world \<Rightarrow> WorkflowResult outcome \<times> world" where
  "productGeneratorWorkflow e =
     run_workflow
       (\<lambda>organizedInput sampleImage w.
          case generateProducts e organizedInput sampleImage w of
            (Returns products, w') \<Rightarrow> (Returns (ProductArray products), w')
          | (Throws error, w') \<Rightarrow> (Throws error, w')
          | (Diverges, w') \<Rightarrow> (Diverges, w'))
       (\<lambda>products w.
          case createShopifyProducts e products w of
            (Returns created, w') \<Rightarrow> (Returns (Records created), w')
          | (Throws error, w') \<Rightarrow> (Throws error, w')
          | (Diverges, w') \<Rightarrow> (Diverges, w'))
       (uploadProductImages e)"

section \<open>The specification's wording and concrete inputs\<close>

text \<open>
  The placeholder rule in the words of the specification, on the facts it names:
  whether the image is the vector format, and the decoded bytes.  A byte lies within 10
  of the mean when the distance is at most 10, and at least 80 percent of the sample
  must do so.
\<close>

definition placeholder_by_spec :: "bool \<Rightarrow> nat list \<Rightarrow> bool" where
  "placeholder_by_spec vector bytes =
     (vector \<or> length bytes < 1024 \<or>
      (let samples = take (min 100 (length bytes)) bytes;
           mean = (of_nat (sum_list samples) :: rat) / of_nat (length samples)
       in 80 * length samples \<le> 100 * length (filter (\<lambda>s. \<bar>of_nat s - mean\<bar> \<le> 10) samples)))"

text \<open>
  A PNG data URI of 1065 bytes that starts with 80 bytes of value 0 and 22 bytes of
  value 20: of the first 100 bytes, exactly 80 lie within 10 of their mean 4.
\<close>

definition flat80_data :: string where
  "flat80_data =
     concat (replicate 26 ''AAAA'') @ ''AAAU'' @ concat (replicate 7 ''FBQU'')
     @ concat (replicate 321 ''AAAA'')"

definition flat80_uri :: string where
  "flat80_uri = ''data:image/png;base64,'' @ flat80_data"

text \<open>A PNG data URI whose 2000 bytes all have the value 128.\<close>

definition solid_data :: string where
  "solid_data = concat (replicate 666 ''gICA'') @ ''gIA=''"

definition solid_uri :: string where
  "solid_uri = ''data:image/png;base64,'' @ solid_data"

text \<open>A generated product with two variants of the same title.\<close>

definition red_twice :: GeneratedProduct where
  "red_twice =
     \<lparr>title = ''Chair'', description = ''A chair.'', price = ''10.00'',
      variants = [\<lparr>variant_title = ''Red'', variant_price = ''10.00''\<rparr>,
                  \<lparr>variant_title = ''Red'', variant_price = ''12.00''\<rparr>],
      features = [], product_image = [], product_category = ''Chairs''\<rparr>"

text \<open>Category requests: a count of 2.5, a name of two spaces, and a mixed list.\<close>

definition chairs_2_5 :: "RawCategoryInput option" where
  "chairs_2_5 = Some \<lparr>raw_category = JSString ''Chairs'', raw_count = JSNumber (Finite (5 / 2))\<rparr>"

definition blank_3 :: "RawCategoryInput option" where
  "blank_3 = Some \<lparr>raw_category = JSString ''  '', raw_count = JSNumber (Finite 3)\<rparr>"

definition mixed_requests :: "RawCategoryInput option list" where
  "mixed_requests =
     [Some \<lparr>raw_category = JSString '' Chairs'', raw_count = JSNumber (Finite 2)\<rparr>,
      Some \<lparr>raw_category = JSString [], raw_count = JSNumber (Finite 5)\<rparr>,
      Some \<lparr>raw_category = JSString ''Sofas'', raw_count = JSNumber (Finite 101)\<rparr>,
      Some \<lparr>raw_category = JSString ''Lamps'', raw_count = JSString ''3''\<rparr>,
      None]"

text \<open>
  A valid batch in the words of the specification's data model: 1 to 10 categories,
  each with a non-empty name and a count that is an integer from 1 to 100, and a total
  that is the sum of the counts.
\<close>

definition whole_count :: "jsnumber \<Rightarrow> bool" where
  "whole_count n = (case n of Finite q \<Rightarrow> q = of_int \<lfloor>q\<rfloor> \<and> 1 \<le> q \<and> q \<le> 100 | _ \<Rightarrow> False)"

definition valid_batch :: "OrganizedInput \<Rightarrow> bool" where
  "valid_batch b =
     (1 \<le> length (categories b) \<and> length (categories b) \<le> 10 \<and>
      list_all (\<lambda>c. category c \<noteq> [] \<and> whole_count (count c)) (categories b) \<and>
      totalProducts b = foldl js_add (Finite 0) (map count (categories b)))"

text \<open>One request for two chairs, and the batch the first step makes of it.\<close>

definition chairs_request :: "RawCategoryInput option list" where
  "chairs_request = [Some \<lparr>raw_category = JSString ''Chairs'', raw_count = JSNumber (Finite 2)\<rparr>]"

definition chairs_categories :: categories_value where
  "chairs_categories =
     ArrayOf [Object \<lparr>raw_category = JSString ''Chairs'', raw_count = JSNumber (Finite 2)\<rparr>]"

text \<open>The array \<open>[10n]\<close>, whose one element is a \<open>BigInt\<close>.\<close>

definition bigint_categories :: categories_value where
  "bigint_categories = ArrayOf [Primitive (JSBigInt 10)]"

definition chairs_batch :: OrganizedInput where
  "chairs_batch = \<lparr>categories = [\<lparr>category = ''Chairs'', count = Finite 2\<rparr>], totalProducts = Finite 2\<rparr>"

definition chair_record :: ShopifyProduct where
  "chair_record = \<lparr>product_id = ''1001'', product_title = ''Chair'', image_data = []\<rparr>"

text \<open>
  Stage functions for the workflow.  Where the world is a list of records, it is the
  list of records the commerce platform holds.
\<close>

definition generate_one ::
  "OrganizedInput \<Rightarrow> string option \<Rightarrow> 'w \<Rightarrow> generate_return outcome \<times> 'w" where
  "generate_one organizedInput sampleImage v = (Returns (ProductArray [red_twice]), v)"

definition generate_throws ::
  "OrganizedInput \<Rightarrow> string option \<Rightarrow> 'w \<Rightarrow> generate_return outcome \<times> 'w" where
  "generate_throws organizedInput sampleImage v = (Throws Thrown, v)"

definition create_one_record ::
  "GeneratedProduct list \<Rightarrow> ShopifyProduct list \<Rightarrow> create_return outcome \<times> ShopifyProduct list" where
  "create_one_record products v = (Returns (Records [chair_record]), v @ [chair_record])"


definition create_throws :: "GeneratedProduct list \<Rightarrow> 'w \<Rightarrow> create_return outcome \<times> 'w" where
  "create_throws products v = (Throws (Error ''create failed''), v)"

definition create_undefined :: "GeneratedProduct list \<Rightarrow> 'w \<Rightarrow> create_return outcome \<times> 'w" where
  "create_undefined products v = (Returns (Nullish IsUndefined), v)"

definition upload_nothing :: "ShopifyProduct list \<Rightarrow> 'w \<Rightarrow> unit outcome \<times> 'w" where
  "upload_nothing created v = (Returns (), v)"

definition upload_throws :: "ShopifyProduct list \<Rightarrow> 'w \<Rightarrow> unit outcome \<times> 'w" where
  "upload_throws created v = (Throws (Error ''no credentials''), v)"

text \<open>
  An environment in which every call of the generation service and every request to the
  commerce platform throws, the same without credentials, and a world without calls.
\<close>

definition failing_shop :: env where
  "failing_shop =
     \<lparr>SHOPIFY_STORE_DOMAIN = Some ''https://demo.myshopify.com/'', SHOPIFY_ACCESS_TOKEN = Some ''shpat_1'',
      AI_GATEWAY_API_KEY = Some ''key'', VERCEL_AI_GATEWAY_KEY = None,
      generateText = (\<lambda>n. None), JSON_parse = (\<lambda>s. None),
      fetch = (\<lambda>n request. FetchThrows), Date_now = (\<lambda>n. 0)\<rparr>"

definition no_credentials :: env where
  "no_credentials = failing_shop\<lparr>SHOPIFY_STORE_DOMAIN := None, SHOPIFY_ACCESS_TOKEN := None\<rparr>"

definition fresh_world :: world where
  "fresh_world = \<lparr>ai_calls = 0, http_log = []\<rparr>"

definition three_records :: "ShopifyProduct list" where
  "three_records =
     [\<lparr>product_id = ''1001'', product_title = ''Chair'', image_data = ''data:image/png;base64,AAAA''\<rparr>,
      \<lparr>product_id = ''1002'', product_title = ''Sofa'', image_data = []\<rparr>,
      \<lparr>product_id = ''1003'', product_title = ''Lamp'', image_data = ''data:image/jpeg;base64,BBBB''\<rparr>]"

section \<open>The placeholder detector: proofs\<close>

lemma startsWith_Cons: "startsWith (c # cs) (p # ps) = (c = p \<and> startsWith cs ps)"
  by (simp add: startsWith_def)

lemma startsWith_Nil: "startsWith s [] = True"
  by (simp add: startsWith_def)

lemma base64Match_includes: "base64Match s = Some d \<Longrightarrow> str_includes s ''base64,''"
  by (induction s) (auto simp: str_includes_def split: if_splits)

lemma base64Match_empty_group: "base64Match ''data:image/png;base64,'' = None"
  by (simp add: startsWith_Cons startsWith_Nil)

lemma indexOf_shorter: "length s < length p \<Longrightarrow> indexOf s p = None"
  by (induction s) (auto simp: startsWith_def)

lemma empty_group_is_not_svg: "\<not> str_includes ''data:image/png;base64,'' ''data:image/svg+xml''"
  using indexOf_shorter [of "''e/png;base64,''" "''data:image/svg+xml''"]
  by (simp add: str_includes_def startsWith_Cons)

lemma empty_image_file_uri:
  "imageDataUri cat [\<lparr>mediaType = Some ''image/png'', base64 = [], uint8Array = Some []\<rparr>] =
     ''data:image/png;base64,''"
  by (simp add: imageDataUri_def isImageFile_def startsWith_Cons startsWith_Nil)

text \<open>
  Claim C10.  An image string that does not contain \<open>data:image/svg+xml\<close> and has no
  base64 section to decode (the expression \<open>/base64,(.+)/\<close> does not match it) is not
  classified as a placeholder: what cannot be decoded is accepted.  A string without
  \<open>base64,\<close> is one case (\<open>base64Match_includes\<close>); a string that ends with
  \<open>base64,\<close>, as the data URI of an empty image file does, is another.
\<close>

theorem undecodable_image_is_not_placeholder:
  "\<not> str_includes uri ''data:image/svg+xml'' \<Longrightarrow> base64Match uri = None \<Longrightarrow>
   \<not> isPlaceholderImage uri"
  by (simp add: isPlaceholderImage_def)

theorem undecodable_image_is_not_placeholder_witness:
  "\<not> str_includes ''data:image/png;base64,'' ''data:image/svg+xml'' \<and>
   base64Match ''data:image/png;base64,'' = None \<and>
   \<not> isPlaceholderImage ''data:image/png;base64,''"
  using undecodable_image_is_not_placeholder [OF empty_group_is_not_svg base64Match_empty_group]
    empty_group_is_not_svg base64Match_empty_group
  by simp

text \<open>The two comparisons of the detector, on integers.\<close>

lemma near_mean_int:
  "(\<bar>(of_nat s :: rat) - of_nat S / of_nat 100\<bar> < 10) = (\<bar>100 * int s - int S\<bar> < 1000)"
proof -
  have "(\<bar>(of_nat s :: rat) - of_nat S / of_nat 100\<bar> < 10)
      = (\<bar>of_int (100 * int s - int S) / (100::rat)\<bar> < 10)"
    by (simp add: field_simps)
  also have "\<dots> = (\<bar>(of_int (100 * int s - int S)) :: rat\<bar> < 1000)"
    by (simp add: field_simps)
  also have "\<dots> = (\<bar>100 * int s - int S\<bar> < 1000)"
    by (metis of_int_abs of_int_less_iff of_int_numeral)
  finally show ?thesis .
qed

lemma share_int: "((of_nat k :: rat) / of_nat 100 > 8 / 10) = (80 < k)"
proof -
  have "((of_nat k :: rat) / of_nat 100 > 8 / 10) = ((of_nat k :: rat) > 80)"
    by (simp add: field_simps)
  also have "\<dots> = (80 < k)"
    by (metis of_nat_less_iff of_nat_numeral)
  finally show ?thesis .
qed

lemma isPlaceholderImage_iff:
  "isPlaceholderImage uri \<longleftrightarrow>
     str_includes uri ''data:image/svg+xml'' \<or>
     (\<exists>data. base64Match uri = Some data \<and>
        (length (base64_decode data) < 1024 \<or>
         80 < length (filter (\<lambda>s. \<bar>100 * int s - int (sum_list (take 100 (base64_decode data)))\<bar> < 1000)
                        (take 100 (base64_decode data)))))"
proof (cases "str_includes uri ''data:image/svg+xml''")
  case True
  then show ?thesis by (simp add: isPlaceholderImage_def)
next
  case svg: False
  show ?thesis
  proof (cases "base64Match uri")
    case None
    with svg show ?thesis by (simp add: isPlaceholderImage_def)
  next
    case (Some data)
    show ?thesis
    proof (cases "length (base64_decode data) < 1024")
      case True
      with svg Some show ?thesis by (simp add: isPlaceholderImage_def)
    next
      case False
      define samples where "samples = take 100 (base64_decode data)"
      have len: "length samples = 100" "min 100 (length (base64_decode data)) = 100"
        using False by (simp_all add: samples_def)
      have "isPlaceholderImage uri =
          ((of_nat (length (filter (\<lambda>s. \<bar>(of_nat s :: rat) - of_nat (sum_list samples) / of_nat 100\<bar> < 10) samples)) :: rat)
             / of_nat 100 > 8 / 10)"
        using svg Some False len unfolding isPlaceholderImage_def Let_def samples_def by simp
      also have "\<dots> = (80 < length (filter (\<lambda>s. \<bar>100 * int s - int (sum_list samples)\<bar> < 1000) samples))"
        by (simp only: near_mean_int share_int)
      finally show ?thesis
        using svg Some False by (simp add: samples_def)
    qed
  qed
qed

lemma solid_buffer_is_placeholder:
  assumes m: "base64Match uri = Some data" and d: "base64_decode data = replicate 2000 b"
  shows "isPlaceholderImage uri"
proof -
  have t: "take 100 (replicate 2000 b) = replicate 100 b" by simp
  have "80 < length (filter (\<lambda>s. \<bar>100 * int s - int (sum_list (take 100 (base64_decode data)))\<bar> < 1000)
                        (take 100 (base64_decode data)))"
    unfolding d t by (simp add: sum_list_replicate)
  with m show ?thesis unfolding isPlaceholderImage_iff by blast
qed

text \<open>Decoding a run of four-character groups.\<close>

lemma sextets_append: "CHR ''='' \<notin> set g \<Longrightarrow> sextets (g @ r) = sextets g @ sextets r"
  by (induction g) (auto split: option.splits)

lemma sextets_groups:
  "CHR ''='' \<notin> set g \<Longrightarrow>
   sextets (concat (replicate n g) @ r) = concat (replicate n (sextets g)) @ sextets r"
  by (induction n) (simp_all add: sextets_append)

lemma bytes_groups:
  "bytes_of_sextets (concat (replicate n [a, b, c, d]) @ r) =
   concat (replicate n (bytes_of_sextets [a, b, c, d])) @ bytes_of_sextets r"
  by (induction n) simp_all

lemma decode_groups:
  "CHR ''='' \<notin> set g \<Longrightarrow> sextets g = [a, b, c, d] \<Longrightarrow>
   base64_decode (concat (replicate n g) @ r) = concat (replicate n (base64_decode g)) @ base64_decode r"
  by (simp add: base64_decode_def sextets_groups bytes_groups)

lemma decode_group:
  "CHR ''='' \<notin> set g \<Longrightarrow> sextets g = [a, b, c, d] \<Longrightarrow>
   base64_decode (g @ r) = base64_decode g @ base64_decode r"
  using decode_groups [of g a b c d 1 r] by simp

lemma decode_groups_only:
  "CHR ''='' \<notin> set g \<Longrightarrow> sextets g = [a, b, c, d] \<Longrightarrow>
   base64_decode (concat (replicate n g)) = concat (replicate n (base64_decode g))"
  using decode_groups [of g a b c d n "[]"] by (simp add: base64_decode_def)

lemma concat_replicate3: "concat (replicate n [x, x, x]) = replicate (3 * n) x"
  by (induction n) (simp_all add: replicate_add numeral_3_eq_3)

lemma takeWhile_all: "\<forall>x\<in>set xs. P x \<Longrightarrow> takeWhile P xs = xs"
  by (induction xs) auto

lemma base64Match_png:
  assumes "d \<noteq> []" and "\<forall>x\<in>set d. \<not> line_terminator x"
  shows "base64Match (''data:image/png;base64,'' @ d) = Some d"
proof -
  from assms obtain c cs where d: "d = c # cs" and c: "\<not> line_terminator c"
    and cs: "\<forall>x\<in>set cs. \<not> line_terminator x"
    by (cases d) auto
  show ?thesis
    unfolding d using c cs by (simp add: startsWith_Cons startsWith_Nil takeWhile_all)
qed

lemma indexOf_absent: "x \<notin> set s \<Longrightarrow> indexOf s (x # p) = None"
  by (induction s) (auto simp: startsWith_Cons)

lemma png_is_not_svg:
  "CHR ''d'' \<notin> set s \<Longrightarrow> \<not> str_includes (''data:image/png;base64,'' @ s) ''data:image/svg+xml''"
  using indexOf_absent [of "CHR ''d''" s "''ata:image/svg+xml''"]
  by (simp add: str_includes_def startsWith_Cons startsWith_Nil)

lemma sextets_gICA: "sextets ''gICA'' = [32, 8, 2, 0]"
  by code_simp

lemma sextets_AAAA: "sextets ''AAAA'' = [0, 0, 0, 0]"
  by code_simp

lemma sextets_AAAU: "sextets ''AAAU'' = [0, 0, 0, 20]"
  by code_simp

lemma sextets_FBQU: "sextets ''FBQU'' = [5, 1, 16, 20]"
  by code_simp

lemma decode_gICA: "base64_decode ''gICA'' = [128, 128, 128]"
  by code_simp

lemma decode_gIA: "base64_decode ''gIA='' = [128, 128]"
  by code_simp

lemma decode_AAAA: "base64_decode ''AAAA'' = [0, 0, 0]"
  by code_simp

lemma decode_AAAU: "base64_decode ''AAAU'' = [0, 0, 20]"
  by code_simp

lemma decode_FBQU: "base64_decode ''FBQU'' = [20, 20, 20]"
  by code_simp

lemma decode_solid_data: "base64_decode solid_data = replicate 2000 128"
proof -
  have "base64_decode solid_data = concat (replicate 666 [128, 128, 128]) @ [128, 128]"
    unfolding solid_data_def by (simp add: decode_groups [OF _ sextets_gICA] decode_gICA decode_gIA)
  also have "\<dots> = replicate 1998 128 @ replicate 2 128"
    by (simp add: concat_replicate3 numeral_2_eq_2)
  also have "\<dots> = replicate 2000 128"
    by (simp add: replicate_add [symmetric])
  finally show ?thesis .
qed

lemma match_solid: "base64Match solid_uri = Some solid_data"
proof -
  have "set solid_data \<subseteq> set ''gICA=''"
    by (auto simp: solid_data_def)
  then have "\<forall>x\<in>set solid_data. \<not> line_terminator x"
    by (auto simp: line_terminator_def)
  moreover have "solid_data \<noteq> []"
    by (simp add: solid_data_def)
  ultimately show ?thesis
    unfolding solid_uri_def by (intro base64Match_png)
qed

lemma decode_flat80_data:
  "base64_decode flat80_data = replicate 80 0 @ replicate 22 20 @ replicate 963 0"
proof -
  let ?A = "concat (replicate 26 ''AAAA'')" and ?F = "concat (replicate 7 ''FBQU'')"
    and ?Z = "concat (replicate 321 ''AAAA'')"
  have 1: "base64_decode (?A @ ''AAAU'' @ ?F @ ?Z) =
      concat (replicate 26 (base64_decode ''AAAA'')) @ base64_decode (''AAAU'' @ ?F @ ?Z)"
    by (rule decode_groups [OF _ sextets_AAAA]) simp
  have 2: "base64_decode (''AAAU'' @ ?F @ ?Z) = base64_decode ''AAAU'' @ base64_decode (?F @ ?Z)"
    by (rule decode_group [OF _ sextets_AAAU]) simp
  have 3: "base64_decode (?F @ ?Z) = concat (replicate 7 (base64_decode ''FBQU'')) @ base64_decode ?Z"
    by (rule decode_groups [OF _ sextets_FBQU]) simp
  have 4: "base64_decode ?Z = concat (replicate 321 (base64_decode ''AAAA''))"
    by (rule decode_groups_only [OF _ sextets_AAAA]) simp
  have "base64_decode flat80_data =
      concat (replicate 26 [0, 0, 0]) @ [0, 0, 20] @ concat (replicate 7 [20, 20, 20])
      @ concat (replicate 321 [0, 0, 0])"
    by (simp only: flat80_data_def 1 2 3 4 decode_AAAA decode_AAAU decode_FBQU)
  also have "\<dots> = replicate 78 0 @ (replicate 2 0 @ replicate 1 20) @ replicate 21 20 @ replicate 963 0"
    by (simp add: concat_replicate3 numeral_2_eq_2)
  also have "\<dots> = replicate 80 0 @ replicate 22 20 @ replicate 963 0"
    by (simp add: replicate_add [symmetric] del: replicate_Suc replicate.simps)
  finally show ?thesis .
qed

lemma set_flat80_data: "set flat80_data \<subseteq> set ''AUFBQ''"
  by (auto simp: flat80_data_def)

lemma match_flat80: "base64Match flat80_uri = Some flat80_data"
proof -
  have "flat80_data \<noteq> []"
    by (simp add: flat80_data_def)
  moreover have "\<forall>x\<in>set flat80_data. \<not> line_terminator x"
    using set_flat80_data by (auto simp: line_terminator_def)
  ultimately show ?thesis
    unfolding flat80_uri_def by (rule base64Match_png)
qed

lemma flat80_is_not_svg: "\<not> str_includes flat80_uri ''data:image/svg+xml''"
  unfolding flat80_uri_def using set_flat80_data by (intro png_is_not_svg) auto

lemma sample_flat80: "take 100 (base64_decode flat80_data) = replicate 80 0 @ replicate 20 20"
  unfolding decode_flat80_data by simp

lemma length_flat80: "length (base64_decode flat80_data) = 1065"
  unfolding decode_flat80_data by simp

text \<open>
  Claim C4, as stated, fails: the data URI \<open>flat80_uri\<close> decodes to 1065 bytes of
  which exactly 80 of the first 100 lie within 10 of the sample mean, so the stated rule
  classifies it as a placeholder, and \<open>isPlaceholderImage\<close> returns false on it.
\<close>

theorem exactly_80_percent_is_not_placeholder:
  "base64Match flat80_uri = Some flat80_data \<and>
   placeholder_by_spec False (base64_decode flat80_data) \<and>
   \<not> isPlaceholderImage flat80_uri"
proof -
  have spec: "placeholder_by_spec False (base64_decode flat80_data)"
    unfolding placeholder_by_spec_def Let_def length_flat80
    by (simp add: sample_flat80 sum_list_replicate)
  have "\<not> (80 < length (filter (\<lambda>s. \<bar>100 * int s - int (sum_list (take 100 (base64_decode flat80_data)))\<bar> < 1000)
                        (take 100 (base64_decode flat80_data))))"
    unfolding sample_flat80 by (simp add: sum_list_replicate)
  then have "\<not> isPlaceholderImage flat80_uri"
    unfolding isPlaceholderImage_iff using match_flat80 flat80_is_not_svg length_flat80 by simp
  with spec match_flat80 show ?thesis by simp
qed

text \<open>
  Claim C4, amended.  \<open>isPlaceholderImage\<close> classifies an image string as a
  placeholder if and only if it contains \<open>data:image/svg+xml\<close>, or it has a base64
  section whose decoded bytes are fewer than 1024, or of which more than 80 of the first
  100 bytes lie at a distance below 10 from the mean of those 100 bytes.  A buffer of
  2000 equal bytes is always classified as a placeholder.
\<close>

theorem placeholder_detection:
  "(isPlaceholderImage uri \<longleftrightarrow>
      str_includes uri ''data:image/svg+xml'' \<or>
      (\<exists>data. base64Match uri = Some data \<and>
         (length (base64_decode data) < 1024 \<or>
          80 < length (filter (\<lambda>s. \<bar>100 * int s - int (sum_list (take 100 (base64_decode data)))\<bar> < 1000)
                         (take 100 (base64_decode data)))))) \<and>
   (\<forall>data b. base64Match uri = Some data \<longrightarrow> base64_decode data = replicate 2000 b \<longrightarrow>
      isPlaceholderImage uri)"
  using isPlaceholderImage_iff [of uri] solid_buffer_is_placeholder [of uri] by blast

theorem placeholder_detection_witness:
  "base64Match solid_uri = Some solid_data \<and> base64_decode solid_data = replicate 2000 128 \<and>
   isPlaceholderImage solid_uri"
  using placeholder_detection [of solid_uri] match_solid decode_solid_data by blast

section \<open>The commerce payload: proofs\<close>

text \<open>
  Claim C1 at the product \<open>red_twice\<close>: both variants get the option value \<open>Red\<close>.  The
  set of seen values is empty whenever it is consulted, so no suffix is ever appended.
  The prices are carried through.
\<close>

theorem duplicate_variant_titles_stay_duplicate:
  "map option1 (payloadVariants red_twice) = [''Red'', ''Red''] \<and>
   map payload_price (payloadVariants red_twice) = [''10.00'', ''12.00'']"
  by (simp add: red_twice_def payloadVariants_def payloadVariant_def enumerate_eq_zip upt_rec)

section \<open>Organizing the input: proofs\<close>

lemma validCategory_iff:
  "validCategory cat \<longleftrightarrow>
     (\<exists>name n. cat = Some \<lparr>raw_category = JSString name, raw_count = JSNumber n\<rparr> \<and> name \<noteq> [] \<and>
        (n = NaN \<or> (\<exists>q. n = Finite q \<and> 1 \<le> q \<and> q \<le> 100)))"
proof (cases cat)
  case None
  then show ?thesis by (simp add: validCategory_def)
next
  case (Some c)
  obtain a b where c: "c = \<lparr>raw_category = a, raw_count = b\<rparr>" by (cases c) auto
  show ?thesis
  proof (cases a)
    case (JSString name)
    show ?thesis
    proof (cases b)
      case (JSNumber n)
      show ?thesis using Some c JSString JSNumber
        by (cases n) (auto simp: validCategory_def js_gt_def)
    qed (use Some c JSString in \<open>auto simp: validCategory_def\<close>)
  qed (use Some c in \<open>auto simp: validCategory_def\<close>)
qed

lemma organizedCategory_valid:
  "organizedCategory (Some \<lparr>raw_category = JSString name, raw_count = JSNumber n\<rparr>) =
     \<lparr>category = trim name, count = n\<rparr>"
  by (simp add: organizedCategory_def)

lemma foldl_total:
  "foldl (\<lambda>sum cat. js_add sum (count (organizedCategory cat))) a cats =
   foldl js_add a (map (\<lambda>cat. count (organizedCategory cat)) cats)"
  by (induction cats arbitrary: a) simp_all

text \<open>
  Claim C2, as stated, fails: a request with the count 2.5 survives the filter, and so
  does a request whose name is two spaces, which leaves the filter with an empty name.
\<close>

theorem fractional_count_and_blank_name_survive:
  "organizeInput (Some [chairs_2_5]) =
     Inr \<lparr>categories = [\<lparr>category = ''Chairs'', count = Finite (5 / 2)\<rparr>],
          totalProducts = Finite (5 / 2)\<rparr> \<and>
   organizeInput (Some [blank_3]) =
     Inr \<lparr>categories = [\<lparr>category = [], count = Finite 3\<rparr>], totalProducts = Finite 3\<rparr>"
  by (simp add: organizeInput_def validCategory_def organizedCategory_def chairs_2_5_def blank_3_def
      js_gt_def trim_def is_white_space_def)

text \<open>
  Claim C2, amended.  On a list of 1 to 10 requests the filter keeps exactly the
  entries whose category is a non-empty string and whose count is a number that is
  neither below 1 nor above 100 (an integer or not; \<open>NaN\<close> passes both comparisons).
  A kept entry appears with its name trimmed and its count unchanged, in the input's
  order.  When no entry is kept the step fails with the error \<open>No valid categories found\<close>.
\<close>

theorem organizeInput_keeps:
  assumes "1 \<le> length cats" and "length cats \<le> 10"
  shows
    "(\<forall>cat. validCategory cat \<longleftrightarrow>
       (\<exists>name n. cat = Some \<lparr>raw_category = JSString name, raw_count = JSNumber n\<rparr> \<and> name \<noteq> [] \<and>
          (n = NaN \<or> (\<exists>q. n = Finite q \<and> 1 \<le> q \<and> q \<le> 100)))) \<and>
     (\<forall>name n. organizedCategory (Some \<lparr>raw_category = JSString name, raw_count = JSNumber n\<rparr>) =
        \<lparr>category = trim name, count = n\<rparr>) \<and>
     organizeInput (Some cats) =
       (if filter validCategory cats = []
        then Inl (Error ''No valid categories found. Each category needs a name and count between 1-100'')
        else Inr \<lparr>categories = map organizedCategory (filter validCategory cats),
                  totalProducts =
                    foldl js_add (Finite 0)
                      (map (\<lambda>cat. count (organizedCategory cat)) (filter validCategory cats))\<rparr>)"
  using assms validCategory_iff organizedCategory_valid
  by (auto simp: organizeInput_def Let_def foldl_total)

theorem organizeInput_keeps_witness:
  "1 \<le> length mixed_requests \<and> length mixed_requests \<le> 10 \<and>
   organizeInput (Some mixed_requests) =
     Inr \<lparr>categories = [\<lparr>category = ''Chairs'', count = Finite 2\<rparr>], totalProducts = Finite 2\<rparr>"
proof -
  have a: "1 \<le> length mixed_requests" and b: "length mixed_requests \<le> 10"
    by (simp_all add: mixed_requests_def)
  have kept: "filter validCategory mixed_requests =
      [Some \<lparr>raw_category = JSString '' Chairs'', raw_count = JSNumber (Finite 2)\<rparr>]"
    by (simp add: mixed_requests_def validCategory_def js_gt_def)
  from organizeInput_keeps [OF a b]
  have "organizeInput (Some mixed_requests) =
      (if filter validCategory mixed_requests = []
       then Inl (Error ''No valid categories found. Each category needs a name and count between 1-100'')
       else Inr \<lparr>categories = map organizedCategory (filter validCategory mixed_requests),
                 totalProducts =
                   foldl js_add (Finite 0)
                     (map (\<lambda>cat. count (organizedCategory cat)) (filter validCategory mixed_requests))\<rparr>)"
    by blast
  then have "organizeInput (Some mixed_requests) =
      Inr \<lparr>categories = [\<lparr>category = ''Chairs'', count = Finite 2\<rparr>], totalProducts = Finite 2\<rparr>"
    unfolding kept by (simp add: organizedCategory_def trim_def is_white_space_def)
  with a b show ?thesis by simp
qed

section \<open>The workflow: proofs\<close>

lemma organize_chairs: "organizeInput (Some chairs_request) = Inr chairs_batch"
  by (simp add: organizeInput_def chairs_request_def chairs_batch_def validCategory_def
      organizedCategory_def js_gt_def trim_def is_white_space_def)

lemma workflow_step1_fails:
  "organizeInput cats = Inl error \<Longrightarrow>
   workflow generate create upload cats sample w =
     (Returns \<lparr>success = False, result_totalProducts = Finite 0, createdProducts = [],
               errors = Some [''Step 1 failed: '' @ error_message error]\<rparr>, w)"
  by (simp add: workflow_def)

lemma organizeInput_fails_iff:
  "(\<exists>error. organizeInput cats = Inl error) \<longleftrightarrow>
     (case cats of None \<Rightarrow> True
      | Some cs \<Rightarrow> cs = [] \<or> length cs > 10 \<or> filter validCategory cs = [])"
  by (auto simp: organizeInput_def Let_def split: option.splits)

text \<open>
  Claim C7.  If the first step fails, the workflow returns \<open>success = False\<close>, a total
  of 0, no created record and the one message \<open>Step 1 failed: ...\<close>, and the world is
  the one it started with, whatever the stage functions would have done: no later stage
  runs.  The step fails exactly when the input is not an array, is empty, has more than
  10 entries or has no valid entry; on the empty array it throws before any stage runs.
\<close>

theorem normalize_failure_is_terminal:
  "(organizeInput cats = Inl error \<longrightarrow>
      workflow generate create upload cats sample w =
        (Returns \<lparr>success = False, result_totalProducts = Finite 0, createdProducts = [],
                  errors = Some [''Step 1 failed: '' @ error_message error]\<rparr>, w)) \<and>
   ((\<exists>err. organizeInput cats = Inl err) \<longleftrightarrow>
      (case cats of None \<Rightarrow> True
       | Some cs \<Rightarrow> cs = [] \<or> length cs > 10 \<or> filter validCategory cs = [])) \<and>
   organizeInput (Some []) = Inl (Error ''Categories array is required and cannot be empty'')"
  using workflow_step1_fails [of cats error generate create upload sample w] organizeInput_fails_iff [of cats]
  by (simp add: organizeInput_def)

theorem normalize_failure_is_terminal_witness:
  "organizeInput (Some []) = Inl (Error ''Categories array is required and cannot be empty'') \<and>
   workflow generate_one create_one_record upload_nothing (Some []) None [] =
     (Returns \<lparr>success = False, result_totalProducts = Finite 0, createdProducts = [],
               errors = Some [''Step 1 failed: Categories array is required and cannot be empty'']\<rparr>, [])"
proof -
  have a: "organizeInput (Some []) = Inl (Error ''Categories array is required and cannot be empty'')"
    by (simp add: organizeInput_def)
  from normalize_failure_is_terminal [of "Some []" "Error ''Categories array is required and cannot be empty''"
      generate_one create_one_record upload_nothing None "[]"] a
  show ?thesis by (simp add: error_message_def)
qed

lemma createShopifyProducts_throws_iff:
  "(\<exists>error. fst (createShopifyProducts e products v) = Throws error) \<longleftrightarrow>
     \<not> (truthy (SHOPIFY_STORE_DOMAIN e) \<and> truthy (SHOPIFY_ACCESS_TOKEN e))"
  by (auto simp: createShopifyProducts_def truthy_def split: option.splits prod.splits)

lemma createShopifyProducts_throws_world:
  "fst (createShopifyProducts e products v) = Throws error \<Longrightarrow> snd (createShopifyProducts e products v) = v"
  by (auto simp: createShopifyProducts_def split: option.splits prod.splits if_splits)

lemma workflow_create_throws:
  assumes "organizeInput cats = Inr org"
    and "generate org sample w = (Returns (ProductArray ps), w2)"
    and "create ps w2 = (Throws error, w3)"
  shows "workflow generate create upload cats sample w =
     (Returns \<lparr>success = False, result_totalProducts = totalProducts org, createdProducts = [],
               errors = Some [''Step 3 failed: '' @ error_message error]\<rparr>, w3)"
  using assms by (simp add: workflow_def)


text \<open>
  The same holds for every Create stage that throws (\<open>workflow_create_throws\<close>).  The
  repository's \<open>createShopifyProducts\<close> throws exactly when a credential is absent, and
  then it has made no request (\<open>createShopifyProducts_throws_iff\<close>,
  \<open>createShopifyProducts_throws_world\<close>): with it, no run has a record that was created
  before a throw.
\<close>

lemma create_throws_without_credentials:
  "\<exists>error.
      createShopifyProducts no_credentials [red_twice] fresh_world = (Throws error, fresh_world)"
  by (simp add: createShopifyProducts_def no_credentials_def)

text \<open>
  Claim C9.  When the first three steps complete, the workflow reaches its end with
  \<open>success = True\<close>, the batch total and the created records of step 3, whether the
  upload throws or not.  The errors are the one message \<open>Step 4 failed: ...\<close> when
  the upload throws, and absent when it returns.
\<close>

theorem publish_failure_is_not_terminal:
  assumes "organizeInput cats = Inr org"
    and "generate org sample w = (Returns (ProductArray ps), w2)"
    and "create ps w2 = (Returns (Records created), w3)"
    and "upload created w3 = (out, w4)"
    and "out \<noteq> Diverges"
  shows "workflow generate create upload cats sample w =
     (Returns \<lparr>success = True, result_totalProducts = totalProducts org, createdProducts = created,
               errors = (case out of Throws error \<Rightarrow> Some [''Step 4 failed: '' @ error_message error]
                         | _ \<Rightarrow> None)\<rparr>, w4)"
  using assms by (cases out) (simp_all add: workflow_def)

theorem publish_failure_is_not_terminal_witness:
  "workflow generate_one create_one_record upload_throws (Some chairs_request) None [] =
     (Returns \<lparr>success = True, result_totalProducts = Finite 2, createdProducts = [chair_record],
               errors = Some [''Step 4 failed: no credentials'']\<rparr>, [chair_record])"
proof -
  have g: "generate_one chairs_batch None ([] :: ShopifyProduct list)
      = (Returns (ProductArray [red_twice]), [])"
    by (simp add: generate_one_def)
  have c: "create_one_record [red_twice] [] = (Returns (Records [chair_record]), [chair_record])"
    by (simp add: create_one_record_def)
  have u: "upload_throws [chair_record] [chair_record] = (Throws (Error ''no credentials''), [chair_record])"
    by (simp add: upload_throws_def)
  have d: "Throws (Error ''no credentials'') \<noteq> (Diverges :: unit outcome)"
    by simp
  have "workflow generate_one create_one_record upload_throws (Some chairs_request) None [] =
     (Returns \<lparr>success = True, result_totalProducts =
                 totalProducts chairs_batch,
               createdProducts = [chair_record],
               errors = (case Throws (Error ''no credentials'') :: unit outcome of
                           Throws error \<Rightarrow> Some [''Step 4 failed: '' @ error_message error]
                         | _ \<Rightarrow> None)\<rparr>, [chair_record])"
    using organize_chairs g c u d by (rule publish_failure_is_not_terminal)
  then show ?thesis
    by (simp add: error_message_def chairs_batch_def)
qed

section \<open>Uploading the images: proofs\<close>

lemma stripDataUriPrefix_empty: "stripDataUriPrefix [] = []"
  by (simp add: stripDataUriPrefix_def startsWith_def)

lemma uploadOne_log:
  "length (http_log (uploadOne e d t p w)) =
     length (http_log w) + (if stripDataUriPrefix (image_data p) \<noteq> [] then 1 else 0)"
  by (auto simp: uploadOne_def Let_def stripDataUriPrefix_empty split: fetch_outcome.splits)

lemma upload_loop_log:
  "length (http_log (foldl (\<lambda>w p. uploadOne e d t p w) w ps)) =
     length (http_log w) + length (filter (\<lambda>p. stripDataUriPrefix (image_data p) \<noteq> []) ps)"
  by (induction ps arbitrary: w) (simp_all add: uploadOne_log)

lemma upload_throws_iff:
  "(\<exists>error. fst (uploadProductImages e products w) = Throws error) \<longleftrightarrow>
     \<not> (truthy (SHOPIFY_STORE_DOMAIN e) \<and> truthy (SHOPIFY_ACCESS_TOKEN e))"
  by (auto simp: uploadProductImages_def truthy_def split: option.splits)

lemma upload_throws_world:
  "fst (uploadProductImages e products w) = Throws error \<Longrightarrow> snd (uploadProductImages e products w) = w"
  by (auto simp: uploadProductImages_def split: option.splits if_splits)

lemma upload_returns:
  assumes "truthy (SHOPIFY_STORE_DOMAIN e)" and "truthy (SHOPIFY_ACCESS_TOKEN e)"
  shows "fst (uploadProductImages e products w) = Returns () \<and>
     length (http_log (snd (uploadProductImages e products w))) =
       length (http_log w) + length (filter (\<lambda>p. stripDataUriPrefix (image_data p) \<noteq> []) products)"
  using assms by (auto simp: uploadProductImages_def truthy_def upload_loop_log split: option.splits)

text \<open>
  Claim C8.  \<open>uploadProductImages\<close> throws if and only if the store domain or the
  access token is absent or empty, and then it has made no request.  With both present
  it returns, whatever \<open>fetch\<close> does, and it has made one request for every record
  that holds image data: a failure for one record does not end the loop.
\<close>

theorem upload_throws_only_without_credentials:
  "((\<exists>error. fst (uploadProductImages e products w) = Throws error) \<longleftrightarrow>
      \<not> (truthy (SHOPIFY_STORE_DOMAIN e) \<and> truthy (SHOPIFY_ACCESS_TOKEN e))) \<and>
   (\<forall>error. fst (uploadProductImages e products w) = Throws error \<longrightarrow>
      snd (uploadProductImages e products w) = w) \<and>
   (truthy (SHOPIFY_STORE_DOMAIN e) \<and> truthy (SHOPIFY_ACCESS_TOKEN e) \<longrightarrow>
      fst (uploadProductImages e products w) = Returns () \<and>
      length (http_log (snd (uploadProductImages e products w))) =
        length (http_log w) + length (filter (\<lambda>p. stripDataUriPrefix (image_data p) \<noteq> []) products))"
  using upload_throws_iff [of e products w] upload_throws_world [of e products w]
    upload_returns [of e products w]
  by blast

lemma strip_png: "stripDataUriPrefix ''data:image/png;base64,AAAA'' = ''AAAA''"
  by (simp add: stripDataUriPrefix_def startsWith_Cons startsWith_Nil)

lemma strip_jpeg: "stripDataUriPrefix ''data:image/jpeg;base64,BBBB'' = ''BBBB''"
  by (simp add: stripDataUriPrefix_def startsWith_Cons startsWith_Nil)

theorem upload_throws_only_without_credentials_witness:
  "truthy (SHOPIFY_STORE_DOMAIN failing_shop) \<and> truthy (SHOPIFY_ACCESS_TOKEN failing_shop) \<and>
   fst (uploadProductImages failing_shop three_records fresh_world) = Returns () \<and>
   length (http_log (snd (uploadProductImages failing_shop three_records fresh_world))) = 2"
proof -
  have a: "truthy (SHOPIFY_STORE_DOMAIN failing_shop) \<and> truthy (SHOPIFY_ACCESS_TOKEN failing_shop)"
    by (simp add: failing_shop_def truthy_def)
  have n: "length (filter (\<lambda>p. stripDataUriPrefix (image_data p) \<noteq> []) three_records) = 2"
    by (simp add: three_records_def strip_png strip_jpeg stripDataUriPrefix_empty)
  from upload_throws_only_without_credentials [of failing_shop three_records fresh_world] a n show ?thesis
    by (simp add: fresh_world_def)
qed

section \<open>Generating the products: proofs\<close>

lemma retryLoop_pushes_one:
  assumes "attempts < maxRetries"
  shows "\<exists>p w'. retryLoop e cat i attempts w = ([p], w')"
  using assms
proof (induction "maxRetries - attempts" arbitrary: attempts w)
  case 0
  then show ?case by simp
next
  case (Suc k)
  obtain r w1 where g: "generateOnce e cat i w = (r, w1)"
    by (cases "generateOnce e cat i w")
  have again: "\<exists>p w'. retryLoop e cat i (Suc attempts) w1 = ([p], w')" if "Suc attempts < maxRetries"
    using Suc.hyps(1) [of "Suc attempts" w1] Suc.hyps(2) that by simp
  show ?case
  proof (cases r)
    case None
    show ?thesis
      using Suc.prems g None again
      by (subst retryLoop.simps) (auto simp: Let_def)
  next
    case (Some a)
    obtain uri pd where a: "a = (uri, pd)" by (cases a)
    show ?thesis
      using Suc.prems g Some a again
      by (subst retryLoop.simps) (auto simp: Let_def)
  qed
qed

lemma productLoop_count:
  "\<exists>ps w'. productLoop e cat (Finite (of_nat n)) i w = Some (ps, w') \<and> length ps = n - i"
proof (induction "n - i" arbitrary: i w)
  case 0
  then have "\<not> (of_nat i :: rat) < of_nat n" by simp
  then show ?case
    using 0 by (subst productLoop.simps) simp
next
  case (Suc k)
  then have lt: "(of_nat i :: rat) < of_nat n" by simp
  obtain p w1 where r: "retryLoop e cat i 0 w = ([p], w1)"
    using retryLoop_pushes_one [of 0 e cat i w] by (auto simp: maxRetries_def)
  obtain ps w2 where rest: "productLoop e cat (Finite (of_nat n)) (Suc i) w1 = Some (ps, w2)"
    and len: "length ps = n - Suc i"
  proof -
    have "k = n - Suc i" using Suc.hyps(2) by simp
    from Suc.hyps(1) [OF this, of w1] show ?thesis using that by auto
  qed
  show ?case
    using lt r rest len Suc.hyps(2)
    by (subst productLoop.simps) simp
qed

lemma productLoop_returns:
  assumes "cnt \<noteq> PosInfinity"
  shows "\<exists>r. productLoop e cat cnt i w = Some r"
proof (cases cnt)
  case (Finite q)
  show ?thesis
    unfolding Finite
  proof (induction "nat \<lceil>q\<rceil> - i" arbitrary: i w)
    case 0
    then have "\<lceil>q\<rceil> \<le> int i" by simp
    then have "q \<le> of_nat i"
      by (metis ceiling_le_iff of_int_of_nat_eq)
    then show ?case
      by (subst productLoop.simps) simp
  next
    case (Suc k)
    obtain p w1 where r: "retryLoop e cat i 0 w = ([p], w1)"
      using retryLoop_pushes_one [of 0 e cat i w] by (auto simp: maxRetries_def)
    obtain rest where rest: "productLoop e cat (Finite q) (Suc i) w1 = Some rest"
    proof -
      have "k = nat \<lceil>q\<rceil> - Suc i" using Suc.hyps(2) by simp
      from Suc.hyps(1) [OF this, of w1] show ?thesis using that by auto
    qed
    show ?case
      using r rest by (subst productLoop.simps) (auto split: prod.splits)
  qed
next
  case NaN
  then show ?thesis by (subst productLoop.simps) simp
next
  case PosInfinity
  with assms show ?thesis by simp
next
  case NegInfinity
  then show ?thesis by (subst productLoop.simps) simp
qed

lemma whole_count_nat:
  assumes "whole_count n"
  shows "\<exists>k. n = Finite (of_nat k)"
proof -
  from assms obtain q where q: "n = Finite q" "q = of_int \<lfloor>q\<rfloor>" "1 \<le> q"
    by (auto simp: whole_count_def split: jsnumber.splits)
  then have "0 \<le> \<lfloor>q\<rfloor>" by linarith
  then have "of_int \<lfloor>q\<rfloor> = (of_nat (nat \<lfloor>q\<rfloor>) :: rat)"
    by simp
  with q show ?thesis by metis
qed

lemma categoryLoop_count:
  assumes "list_all (\<lambda>c. category c \<noteq> [] \<and> whole_count (count c)) cs"
  shows "\<exists>ps w'. categoryLoop e cs w = Some (ps, w') \<and>
     foldl js_add (Finite a) (map count cs) = Finite (a + of_nat (length ps))"
  using assms
proof (induction cs arbitrary: w a)
  case Nil
  then show ?case by simp
next
  case (Cons c cs)
  from Cons.prems obtain k where k: "count c = Finite (of_nat k)"
    using whole_count_nat by auto
  obtain ps w1 where p: "productLoop e (category c) (Finite (of_nat k)) 0 w = Some (ps, w1)"
    and len: "length ps = k"
    using productLoop_count [of e "category c" k 0 w] by auto
  from Cons.prems have "list_all (\<lambda>c. category c \<noteq> [] \<and> whole_count (count c)) cs" by simp
  from Cons.IH [OF this, of w1 "a + of_nat k"] obtain more w2
    where m: "categoryLoop e cs w1 = Some (more, w2)"
      and f: "foldl js_add (Finite (a + of_nat k)) (map count cs) = Finite (a + of_nat k + of_nat (length more))"
    by auto
  show ?case
    using k p len m f by (simp add: add.assoc)
qed

text \<open>
  Claim C5.  On a valid batch \<open>generateProducts\<close> returns, whatever the generation
  service and \<open>JSON.parse\<close> do, and the number of products it returns is the total of
  the batch.
\<close>

theorem generateProducts_length:
  assumes "valid_batch b"
  shows "\<exists>ps w'. generateProducts e b sampleImage w = (Returns ps, w') \<and>
     totalProducts b = Finite (of_nat (length ps))"
proof -
  from assms have "list_all (\<lambda>c. category c \<noteq> [] \<and> whole_count (count c)) (categories b)"
    and t: "totalProducts b = foldl js_add (Finite 0) (map count (categories b))"
    by (simp_all add: valid_batch_def)
  from categoryLoop_count [OF this(1), of e w 0] obtain ps w'
    where "categoryLoop e (categories b) w = Some (ps, w')"
      and "foldl js_add (Finite 0) (map count (categories b)) = Finite (of_nat (length ps))"
    by auto
  with t show ?thesis by (simp add: generateProducts_def)
qed

theorem generateProducts_length_witness:
  "valid_batch chairs_batch \<and>
   (\<exists>ps w'. generateProducts failing_shop chairs_batch None fresh_world = (Returns ps, w') \<and>
      length ps = 2)"
proof -
  have v: "valid_batch chairs_batch"
    by (simp add: valid_batch_def chairs_batch_def whole_count_def)
  from generateProducts_length [OF v, of failing_shop None fresh_world] obtain ps w'
    where g: "generateProducts failing_shop chairs_batch None fresh_world = (Returns ps, w')"
      and t: "totalProducts chairs_batch = Finite (of_nat (length ps))"
    by blast
  from t have "(of_nat (length ps) :: rat) = of_nat 2"
    by (simp add: chairs_batch_def)
  then have "length ps = 2"
    by (simp only: of_nat_eq_iff)
  with v g show ?thesis by blast
qed

section \<open>The exceptions that leave the workflow\<close>

lemma validCategory_count:
  "validCategory cat \<Longrightarrow> count (organizedCategory cat) \<noteq> PosInfinity"
  by (auto simp: validCategory_iff organizedCategory_def)

lemma organizeInput_counts:
  assumes "organizeInput cats = Inr org"
  shows "\<forall>c\<in>set (categories org). count c \<noteq> PosInfinity"
proof -
  from assms obtain cs where "categories org = map organizedCategory (filter validCategory cs)"
    by (auto simp: organizeInput_def Let_def split: option.splits if_splits)
  then show ?thesis
    using validCategory_count by auto
qed

lemma categoryLoop_returns:
  "\<forall>c\<in>set cs. count c \<noteq> PosInfinity \<Longrightarrow> \<exists>r. categoryLoop e cs w = Some r"
proof (induction cs arbitrary: w)
  case Nil
  then show ?case by simp
next
  case (Cons c cs)
  then obtain ps w1 where p: "productLoop e (category c) (count c) 0 w = Some (ps, w1)"
    using productLoop_returns [of "count c" e "category c" 0 w] by auto
  from Cons obtain more w2 where "categoryLoop e cs w1 = Some (more, w2)"
    by fastforce
  with p show ?case by simp
qed

lemma generateProducts_returns:
  assumes "organizeInput cats = Inr org"
  shows "\<exists>ps w'. generateProducts e org sampleImage w = (Returns ps, w')"
  using categoryLoop_returns [OF organizeInput_counts [OF assms], of e w]
  by (auto simp: generateProducts_def)

lemma createShopifyProducts_no_divergence: "fst (createShopifyProducts e ps v) \<noteq> Diverges"
  by (auto simp: createShopifyProducts_def split: option.splits prod.splits)

lemma uploadProductImages_no_divergence: "fst (uploadProductImages e cs v) \<noteq> Diverges"
  by (auto simp: uploadProductImages_def split: option.splits)

lemma workflow_throws_only_on_nullish:
  assumes "fst (workflow generate create upload cats sample w) = Throws error"
  shows "\<exists>ps v n. fst (create ps v) = Returns (Nullish n)"
proof (cases "organizeInput cats")
  case (Inl e)
  with assms show ?thesis by (simp add: workflow_def)
next
  case (Inr org)
  obtain o2 w2 where g: "generate org sample w = (o2, w2)"
    by (cases "generate org sample w")
  show ?thesis
  proof (cases o2)
    case (Returns gr)
    show ?thesis
    proof (cases gr)
      case (ProductArray ps)
      obtain o3 w3 where c: "create ps w2 = (o3, w3)"
        by (cases "create ps w2")
      show ?thesis
      proof (cases o3)
        case o3: (Returns cr)
        show ?thesis
        proof (cases cr)
          case (Nullish n)
          with c o3 have "fst (create ps w2) = Returns (Nullish n)" by simp
          then show ?thesis by blast
        next
          case (Records created)
          obtain o4 w4 where u: "upload created w3 = (o4, w4)"
            by (cases "upload created w3")
          show ?thesis
            using assms Inr g Returns ProductArray c o3 Records u
            by (cases o4) (simp_all add: workflow_def)
        qed
      qed (use assms Inr g Returns ProductArray c in \<open>simp_all add: workflow_def\<close>)
    qed (use assms Inr g Returns in \<open>simp_all add: workflow_def\<close>)
  qed (use assms Inr g in \<open>simp_all add: workflow_def\<close>)
qed

lemma workflow_returns:
  assumes g: "\<And>org. organizeInput cats = Inr org \<Longrightarrow> fst (generate org sample w) \<noteq> Diverges"
    and c: "\<And>ps v. fst (create ps v) \<noteq> Diverges"
    and n: "\<And>ps v n. fst (create ps v) \<noteq> Returns (Nullish n)"
    and u: "\<And>cs v. fst (upload cs v) \<noteq> Diverges"
  shows "\<exists>r w'. workflow generate create upload cats sample w = (Returns r, w')"
proof -
  obtain out w' where r: "workflow generate create upload cats sample w = (out, w')"
    by (cases "workflow generate create upload cats sample w")
  have "out \<noteq> Diverges"
  proof (cases "organizeInput cats")
    case (Inl e)
    with r show ?thesis by (auto simp: workflow_def)
  next
    case (Inr org)
    obtain o2 w2 where g2: "generate org sample w = (o2, w2)"
      by (cases "generate org sample w")
    with g [OF Inr] have o2: "o2 \<noteq> Diverges" by simp
    show ?thesis
    proof (cases o2)
      case (Returns gr)
      show ?thesis
      proof (cases gr)
        case (ProductArray ps)
        obtain o3 w3 where c3: "create ps w2 = (o3, w3)"
          by (cases "create ps w2")
        with c [of ps w2] have o3: "o3 \<noteq> Diverges" by simp
        show ?thesis
        proof (cases o3)
          case created: (Returns cr)
          show ?thesis
          proof (cases cr)
            case (Nullish k)
            with r Inr g2 Returns ProductArray c3 created show ?thesis
              by (auto simp: workflow_def)
          next
            case (Records created')
            obtain o4 w4 where u4: "upload created' w3 = (o4, w4)"
              by (cases "upload created' w3")
            with u [of created' w3] have "o4 \<noteq> Diverges" by simp
            then show ?thesis
              using r Inr g2 Returns ProductArray c3 created Records u4
              by (cases o4) (auto simp: workflow_def)
          qed
        qed (use r Inr g2 Returns ProductArray c3 o3 in \<open>auto simp: workflow_def\<close>)
      qed (use r Inr g2 Returns in \<open>auto simp: workflow_def\<close>)
    qed (use r Inr g2 o2 in \<open>auto simp: workflow_def\<close>)
  qed
  moreover have "out \<noteq> Throws error" for error
    using workflow_throws_only_on_nullish [of generate create upload cats sample w error] r n
    by auto
  ultimately show ?thesis
    using r by (cases out) auto
qed

lemma run_workflow_throws:
  assumes "fst (run_workflow generate create upload cv sample w) = Throws error"
  shows "stringify_throws cv \<or> (\<exists>ps v n. fst (create ps v) = Returns (Nullish n))"
proof (cases "stringify_throws cv")
  case True
  then show ?thesis by simp
next
  case False
  with assms have "fst (workflow generate create upload (entries_of cv) sample w) = Throws error"
    by (simp add: run_workflow_def)
  from workflow_throws_only_on_nullish [OF this] show ?thesis
    by simp
qed

lemma productGeneratorWorkflow_returns:
  assumes "\<not> stringify_throws cv"
  shows "\<exists>r w'. productGeneratorWorkflow e cv sample w0 = (Returns r, w')"
proof -
  let ?generate = "\<lambda>organizedInput sampleImage w.
          case generateProducts e organizedInput sampleImage w of
            (Returns products, w') \<Rightarrow> (Returns (ProductArray products), w')
          | (Throws error, w') \<Rightarrow> (Throws error, w')
          | (Diverges, w') \<Rightarrow> (Diverges :: generate_return outcome, w')"
  let ?create = "\<lambda>products w.
          case createShopifyProducts e products w of
            (Returns created, w') \<Rightarrow> (Returns (Records created), w')
          | (Throws error, w') \<Rightarrow> (Throws error, w')
          | (Diverges, w') \<Rightarrow> (Diverges :: create_return outcome, w')"
  have "\<exists>r w'. workflow ?generate ?create (uploadProductImages e) (entries_of cv) sample w0 = (Returns r, w')"
  proof (rule workflow_returns)
    fix org
    assume "organizeInput (entries_of cv) = Inr org"
    from generateProducts_returns [OF this, of e sample w0]
    show "fst (?generate org sample w0) \<noteq> Diverges"
      by auto
  next
    fix ps v
    show "fst (?create ps v) \<noteq> Diverges"
      using createShopifyProducts_no_divergence [of e ps v]
      by (cases "createShopifyProducts e ps v") (auto split: outcome.splits)
  next
    fix ps v n
    show "fst (?create ps v) \<noteq> Returns (Nullish n)"
      by (cases "createShopifyProducts e ps v") (auto split: outcome.splits)
  next
    fix cs v
    show "fst (uploadProductImages e cs v) \<noteq> Diverges"
      by (rule uploadProductImages_no_divergence)
  qed
  with assms show ?thesis
    by (simp add: productGeneratorWorkflow_def run_workflow_def)
qed

text \<open>
  Claim C6, as stated, fails.  On the array \<open>[10n]\<close> the workflow of the repository
  throws: \<open>JSON.stringify(categories)\<close> on line 23 stands before the first \<open>try\<close>.  And
  with a Create stage that resolves to \<open>undefined\<close> the third \<open>catch\<close> block throws.
\<close>

theorem workflow_throws_on_bigint_input:
  "productGeneratorWorkflow failing_shop bigint_categories None fresh_world =
     (Throws (Error ''Do not know how to serialize a BigInt''), fresh_world) \<and>
   run_workflow generate_one create_undefined upload_nothing chairs_categories None fresh_world =
     (Throws (length_of_nullish IsUndefined), fresh_world)"
proof -
  have a: "stringify_throws bigint_categories"
    by (simp add: stringify_throws_def bigint_categories_def element_has_bigint_def is_bigint_def)
  have b: "\<not> stringify_throws chairs_categories"
    by (simp add: stringify_throws_def chairs_categories_def element_has_bigint_def is_bigint_def)
  have c: "entries_of chairs_categories = Some chairs_request"
    by (simp add: entries_of_def chairs_categories_def chairs_request_def entry_of_def)
  have "run_workflow generate_one create_undefined upload_nothing chairs_categories None fresh_world =
      (Throws (length_of_nullish IsUndefined), fresh_world)"
    using b c
    by (simp add: run_workflow_def workflow_def organize_chairs generate_one_def create_undefined_def)
  with a show ?thesis
    by (simp add: productGeneratorWorkflow_def run_workflow_def)
qed

text \<open>
  Claim C6, amended.  On every input that \<open>JSON.stringify\<close> can serialise, and with stage
  functions that throw any exception or resolve to a value (the Create stage to an
  array, as its type declares), the workflow returns a result and no exception leaves
  it.  An exception leaves it only when the input cannot be serialised or the Create
  stage resolves to \<open>undefined\<close> or \<open>null\<close>.  With the stages of the repository it
  returns a result on every input that can be serialised, in every environment.
\<close>

theorem workflow_never_propagates:
  "(\<forall>error. fst (run_workflow generate create upload cv sample w) = Throws error \<longrightarrow>
      stringify_throws cv \<or> (\<exists>ps v n. fst (create ps v) = Returns (Nullish n))) \<and>
   (\<not> stringify_throws cv \<and>
    (\<forall>org s v. fst (generate org s v) \<noteq> Diverges) \<and>
    (\<forall>ps v. fst (create ps v) \<noteq> Diverges \<and> (\<forall>n. fst (create ps v) \<noteq> Returns (Nullish n))) \<and>
    (\<forall>cs v. fst (upload cs v) \<noteq> Diverges) \<longrightarrow>
    (\<exists>r w'. run_workflow generate create upload cv sample w = (Returns r, w'))) \<and>
   (\<not> stringify_throws cv \<longrightarrow>
    (\<exists>r w'. productGeneratorWorkflow e cv sample w0 = (Returns r, w')))"
proof (intro conjI impI allI)
  fix error
  assume "fst (run_workflow generate create upload cv sample w) = Throws error"
  then show "stringify_throws cv \<or> (\<exists>ps v n. fst (create ps v) = Returns (Nullish n))"
    by (rule run_workflow_throws)
next
  assume h: "\<not> stringify_throws cv \<and>
    (\<forall>org s v. fst (generate org s v) \<noteq> Diverges) \<and>
    (\<forall>ps v. fst (create ps v) \<noteq> Diverges \<and> (\<forall>n. fst (create ps v) \<noteq> Returns (Nullish n))) \<and>
    (\<forall>cs v. fst (upload cs v) \<noteq> Diverges)"
  then have "\<exists>r w'. workflow generate create upload (entries_of cv) sample w = (Returns r, w')"
    by (intro workflow_returns) auto
  with h show "\<exists>r w'. run_workflow generate create upload cv sample w = (Returns r, w')"
    by (simp add: run_workflow_def)
next
  assume "\<not> stringify_throws cv"
  then show "\<exists>r w'. productGeneratorWorkflow e cv sample w0 = (Returns r, w')"
    by (rule productGeneratorWorkflow_returns)
qed

theorem workflow_never_propagates_witness:
  "\<not> stringify_throws chairs_categories \<and>
   (\<forall>org s v. fst (generate_throws org s (v :: world)) \<noteq> Diverges) \<and>
   (\<forall>ps v. fst (create_throws ps (v :: world)) \<noteq> Diverges \<and>
      (\<forall>n. fst (create_throws ps v) \<noteq> Returns (Nullish n))) \<and>
   (\<forall>cs v. fst (upload_throws cs (v :: world)) \<noteq> Diverges) \<and>
   (\<exists>r w'. run_workflow generate_throws create_throws upload_throws chairs_categories None fresh_world
      = (Returns r, w')) \<and>
   (\<exists>r w'. productGeneratorWorkflow failing_shop chairs_categories None fresh_world = (Returns r, w'))"
proof -
  have s: "\<not> stringify_throws chairs_categories"
    by (simp add: stringify_throws_def chairs_categories_def element_has_bigint_def is_bigint_def)
  have h: "(\<forall>org s v. fst (generate_throws org s (v :: world)) \<noteq> Diverges) \<and>
     (\<forall>ps v. fst (create_throws ps (v :: world)) \<noteq> Diverges \<and>
        (\<forall>n. fst (create_throws ps v) \<noteq> Returns (Nullish n))) \<and>
     (\<forall>cs v. fst (upload_throws cs (v :: world)) \<noteq> Diverges)"
    by (simp add: generate_throws_def create_throws_def upload_throws_def)
  from workflow_never_propagates
    [of generate_throws create_throws upload_throws chairs_categories None fresh_world failing_shop fresh_world]
    s h
  show ?thesis by blast
qed

end
